theory Spec2Isabelle
  imports Complex_Main "HOL-Library.Char_ord" "HOL-Library.List_Lexorder"
begin

section \<open>Values, tables and errors\<close>

text \<open>
  The embedding follows \<^verbatim>\<open>notebooks/utils.py\<close>. A numpy \<^verbatim>\<open>float64\<close> is
  modelled as an exact real number or the value NaN: a cell is never an infinity,
  and the arithmetic is exact everywhere but in the section on binary64, which follows
  \<^verbatim>\<open>np.corrcoef\<close> operation by operation with IEEE 754 rounding. A pandas
  cell is a string or such a number; a missing cell is the number NaN, as pandas
  stores it. A \<^verbatim>\<open>DataFrame\<close> is its column labels, its row labels and its
  rows. Column labels are strings and are pairwise distinct in a well-formed table
  (\<^verbatim>\<open>read_csv\<close> renames repeated labels); a column is looked up at the
  first position that carries its label.
\<close>

datatype float64 = NaN | Val real

datatype cell = Str string | Num float64

datatype error =
    KeyError
  | ValueError
  | IndexError
  | AssertionError
  | NotFittedError
  | AttributeError
  | UndefinedVariableError
  | TypeError

record dataframe =
  columns :: "string list"
  index :: "nat list"
  rows :: "cell list list"


definition shape :: "dataframe \<Rightarrow> nat \<times> nat" where
  "shape df = (length (rows df), length (columns df))"

fun find_pos :: "'a list \<Rightarrow> 'a \<Rightarrow> nat option" where
  "find_pos [] a = None"
| "find_pos (x # xs) a = (if x = a then Some 0 else map_option Suc (find_pos xs a))"

definition col_pos :: "dataframe \<Rightarrow> string \<Rightarrow> nat option" where
  "col_pos df name = find_pos (columns df) name"

text \<open>
  The comparisons of pandas on cells: \<^verbatim>\<open>==\<close> is false and \<^verbatim>\<open>!=\<close> is true
  as soon as one side is NaN. \<^verbatim>\<open>isna\<close> recognises the missing cell.
\<close>

definition isna :: "cell \<Rightarrow> bool" where
  "isna c = (c = Num NaN)"

definition cell_eq :: "cell \<Rightarrow> cell \<Rightarrow> bool" where
  "cell_eq a b = (a = b \<and> \<not> isna a)"

definition cell_ne :: "cell \<Rightarrow> cell \<Rightarrow> bool" where
  "cell_ne a b = (\<not> cell_eq a b)"

text \<open>Row selection by a boolean mask keeps the labels of the rows it keeps.\<close>

definition keep_rows :: "(cell list \<Rightarrow> bool) \<Rightarrow> dataframe \<Rightarrow> dataframe" where
  "keep_rows P df =
     df\<lparr>index := map fst (filter (\<lambda>ir. P (snd ir)) (zip (index df) (rows df))),
        rows := filter P (rows df)\<rparr>"

definition reset_index :: "dataframe \<Rightarrow> dataframe" where
  "reset_index df = df\<lparr>index := [0..<length (rows df)]\<rparr>"

section \<open>Feature/metadata accessor\<close>

definition startswith :: "string \<Rightarrow> string \<Rightarrow> bool" where
  "startswith c p = (take (length p) c = p)"

definition get_metacols :: "dataframe \<Rightarrow> string list" where
  "get_metacols df = filter (\<lambda>c. startswith c ''Metadata_'') (columns df)"

definition get_featurecols :: "dataframe \<Rightarrow> string list" where
  "get_featurecols df = filter (\<lambda>c. \<not> startswith c ''Metadata'') (columns df)"

text \<open>
  \<^verbatim>\<open>df[labels]\<close>: the columns named by the labels, in the order of the labels;
  a label the table does not have raises \<^verbatim>\<open>KeyError\<close>.
\<close>

fun positions :: "string list \<Rightarrow> string list \<Rightarrow> error + nat list" where
  "positions cs [] = Inr []"
| "positions cs (l # ls) =
     (case find_pos cs l of
        None \<Rightarrow> Inl KeyError
      | Some j \<Rightarrow> (case positions cs ls of Inl e \<Rightarrow> Inl e | Inr js \<Rightarrow> Inr (j # js)))"

definition select_columns :: "dataframe \<Rightarrow> string list \<Rightarrow> error + dataframe" where
  "select_columns df labels =
     (case positions (columns df) labels of
        Inl e \<Rightarrow> Inl e
      | Inr js \<Rightarrow> Inr (df\<lparr>columns := labels, rows := map (\<lambda>r. map (\<lambda>j. r ! j) js) (rows df)\<rparr>))"

definition get_metadata :: "dataframe \<Rightarrow> error + dataframe" where
  "get_metadata df = select_columns df (get_metacols df)"

definition get_featuredata :: "dataframe \<Rightarrow> error + dataframe" where
  "get_featuredata df = select_columns df (get_featurecols df)"

text \<open>
  \<^verbatim>\<open>df.query('Metadata_control_type!="negcon"')\<close> fails when the column is not
  there; \<^verbatim>\<open>dropna(subset=[name])\<close> drops the rows whose cell is missing and
  raises \<^verbatim>\<open>KeyError\<close> for an unknown column.
\<close>

definition query_ne :: "dataframe \<Rightarrow> string \<Rightarrow> cell \<Rightarrow> error + dataframe" where
  "query_ne df name v =
     (case col_pos df name of
        None \<Rightarrow> Inl UndefinedVariableError
      | Some j \<Rightarrow> Inr (keep_rows (\<lambda>r. cell_ne (r ! j) v) df))"

definition dropna :: "dataframe \<Rightarrow> string \<Rightarrow> error + dataframe" where
  "dropna df name =
     (case col_pos df name of
        None \<Rightarrow> Inl KeyError
      | Some j \<Rightarrow> Inr (keep_rows (\<lambda>r. \<not> isna (r ! j)) df))"

definition remove_negcon_empty_wells :: "dataframe \<Rightarrow> error + dataframe" where
  "remove_negcon_empty_wells df =
     (case query_ne df ''Metadata_control_type'' (Str ''negcon'') of
        Inl e \<Rightarrow> Inl e
      | Inr d1 \<Rightarrow>
          (case dropna d1 ''Metadata_broad_sample'' of
             Inl e \<Rightarrow> Inl e
           | Inr d2 \<Rightarrow> Inr (reset_index d2)))"

section \<open>Percent score\<close>

text \<open>
  \<^verbatim>\<open>np.nanpercentile\<close> drops the NaNs, sorts, and interpolates linearly at the
  virtual index \<open>(n - 1) * q / 100\<close>; on no value at all it is NaN.
  A comparison with NaN is false; \<^verbatim>\<open>np.mean\<close> of an empty array is NaN.
\<close>

fun finite_values :: "float64 list \<Rightarrow> real list" where
  "finite_values [] = []"
| "finite_values (NaN # xs) = finite_values xs"
| "finite_values (Val x # xs) = x # finite_values xs"

definition percentile :: "real list \<Rightarrow> real \<Rightarrow> real" where
  "percentile a q =
     (let s = sort a;
          n = length s;
          vi = real (n - 1) * (q / 100);
          lo = nat \<lfloor>vi\<rfloor>;
          hi = min (lo + 1) (n - 1);
          g = vi - real lo
      in s ! lo + g * (s ! hi - s ! lo))"

definition nanpercentile :: "float64 list \<Rightarrow> real \<Rightarrow> float64" where
  "nanpercentile a q =
     (let xs = finite_values a in if xs = [] then NaN else Val (percentile xs q))"

fun fgt :: "float64 \<Rightarrow> float64 \<Rightarrow> bool" where
  "fgt (Val a) (Val b) = (a > b)"
| "fgt _ _ = False"

fun flt :: "float64 \<Rightarrow> float64 \<Rightarrow> bool" where
  "flt (Val a) (Val b) = (a < b)"
| "flt _ _ = False"

fun fadd :: "float64 \<Rightarrow> float64 \<Rightarrow> float64" where
  "fadd (Val a) (Val b) = Val (a + b)"
| "fadd _ _ = NaN"

definition mean_bool :: "bool list \<Rightarrow> float64" where
  "mean_bool bs =
     (if bs = [] then NaN else Val (real (length (filter id bs)) / real (length bs)))"

text \<open>
  The function returns a pair in the modes \<^verbatim>\<open>right\<close> and \<^verbatim>\<open>left\<close>, a triple in
  the mode \<^verbatim>\<open>both\<close>, and falls off its end (Python's \<^verbatim>\<open>None\<close>) otherwise.
\<close>

datatype score = Pair float64 float64 | Triple float64 float64 float64

definition percent_score :: "float64 list \<Rightarrow> float64 list \<Rightarrow> string \<Rightarrow> score option" where
  "percent_score null_dist corr_dist how =
     (if how = ''right'' then
        (let perc_95 = nanpercentile null_dist 95;
             above_threshold = map (\<lambda>c. fgt c perc_95) corr_dist
         in Some (Pair (mean_bool above_threshold) perc_95))
      else if how = ''left'' then
        (let perc_5 = nanpercentile null_dist 5;
             below_threshold = map (\<lambda>c. flt c perc_5) corr_dist
         in Some (Pair (mean_bool below_threshold) perc_5))
      else if how = ''both'' then
        (let perc_95 = nanpercentile null_dist 95;
             above_threshold = map (\<lambda>c. fgt c perc_95) corr_dist;
             perc_5 = nanpercentile null_dist 5;
             below_threshold = map (\<lambda>c. flt c perc_5) corr_dist
         in Some (Triple (fadd (mean_bool above_threshold) (mean_bool below_threshold))
                    perc_95 perc_5))
      else None)"


section \<open>Correlation statistics\<close>

text \<open>
  \<^verbatim>\<open>np.corrcoef\<close> takes each row as one variable. Its entry for two rows is
  their covariance (divisor: the number of columns less one) divided by the standard
  deviation of each, clipped to \<open>[-1, 1]\<close>. The entry is NaN when a row holds a NaN,
  when there are fewer than two columns (the divisor is not positive), and when a row
  has variance zero (\<open>0 / 0\<close>).
\<close>

definition mean :: "real list \<Rightarrow> real" where
  "mean xs = sum_list xs / real (length xs)"

definition centered :: "real list \<Rightarrow> real list" where
  "centered xs = map (\<lambda>x. x - mean xs) xs"

definition dot :: "real list \<Rightarrow> real list \<Rightarrow> real" where
  "dot xs ys = sum_list (map2 (*) xs ys)"

definition cov_entry :: "real list \<Rightarrow> real list \<Rightarrow> real" where
  "cov_entry xs ys = dot (centered xs) (centered ys) / (real (length xs) - 1)"

definition clip :: "real \<Rightarrow> real \<Rightarrow> real \<Rightarrow> real" where
  "clip lo hi x = min hi (max lo x)"

fun all_finite :: "float64 list \<Rightarrow> real list option" where
  "all_finite [] = Some []"
| "all_finite (NaN # xs) = None"
| "all_finite (Val x # xs) = map_option ((#) x) (all_finite xs)"

definition corr_entry :: "float64 list \<Rightarrow> float64 list \<Rightarrow> float64" where
  "corr_entry a b =
     (case all_finite a of
        None \<Rightarrow> NaN
      | Some xs \<Rightarrow>
          (case all_finite b of
             None \<Rightarrow> NaN
           | Some ys \<Rightarrow>
               if length xs \<le> 1 then NaN
               else if cov_entry xs xs = 0 \<or> cov_entry ys ys = 0 then NaN
               else Val (clip (- 1) 1
                      (cov_entry xs ys / sqrt (cov_entry xs xs) / sqrt (cov_entry ys ys)))))"

definition corrcoef :: "float64 list list \<Rightarrow> float64 list list" where
  "corrcoef m = map (\<lambda>a. map (\<lambda>b. corr_entry a b) m) m"

text \<open>\<^verbatim>\<open>np.fill_diagonal(corr, np.nan)\<close> on a matrix given by its rows.\<close>

definition fill_diagonal :: "float64 list list \<Rightarrow> float64 list list" where
  "fill_diagonal m = map (\<lambda>i. (m ! i)[i := NaN]) [0..<length m]"

text \<open>
  \<^verbatim>\<open>np.nanmedian\<close> of a matrix: the median of all its entries that are not NaN
  (the mean of the two middle values when their number is even), NaN when there is none.
\<close>

definition median :: "real list \<Rightarrow> real" where
  "median xs =
     (let s = sort xs; n = length s
      in if even n then (s ! (n div 2 - 1) + s ! (n div 2)) / 2 else s ! (n div 2))"

definition nanmedian :: "float64 list list \<Rightarrow> float64" where
  "nanmedian m =
     (let xs = finite_values (concat m) in if xs = [] then NaN else Val (median xs))"

text \<open>
  The float array numpy makes of a table. A string cell makes the numerical routine
  that receives the array raise; the error it raises is the first argument.
\<close>

fun cell_float :: "cell \<Rightarrow> float64 option" where
  "cell_float (Num f) = Some f"
| "cell_float (Str s) = None"

definition float_rows :: "error \<Rightarrow> cell list list \<Rightarrow> error + float64 list list" where
  "float_rows e rs =
     (if list_all (list_all (\<lambda>c. cell_float c \<noteq> None)) rs
      then Inr (map (map (\<lambda>c. the (cell_float c))) rs)
      else Inl e)"

text \<open>
  \<^verbatim>\<open>df.groupby(name)\<close>: one group per value of the column, NaN left out, the
  groups in the sorted order of their values (numbers before strings).
\<close>

fun cell_le :: "cell \<Rightarrow> cell \<Rightarrow> bool" where
  "cell_le (Str s) (Str t) = (s \<le> t)"
| "cell_le (Str s) (Num b) = False"
| "cell_le (Num a) (Str t) = True"
| "cell_le (Num (Val a)) (Num (Val b)) = (a \<le> b)"
| "cell_le (Num a) (Num b) = True"

fun insort_cell :: "cell \<Rightarrow> cell list \<Rightarrow> cell list" where
  "insort_cell x [] = [x]"
| "insort_cell x (y # ys) = (if cell_le x y then x # y # ys else y # insort_cell x ys)"

definition sort_cells :: "cell list \<Rightarrow> cell list" where
  "sort_cells xs = foldr insort_cell xs []"

definition group_keys :: "cell list \<Rightarrow> cell list" where
  "group_keys col = sort_cells (remdups (filter (\<lambda>c. \<not> isna c) col))"

definition groupby :: "dataframe \<Rightarrow> string \<Rightarrow> error + (cell \<times> dataframe) list" where
  "groupby df name =
     (case col_pos df name of
        None \<Rightarrow> Inl KeyError
      | Some j \<Rightarrow>
          Inr (map (\<lambda>k. (k, keep_rows (\<lambda>r. r ! j = k) df))
                 (group_keys (map (\<lambda>r. r ! j) (rows df)))))"

text \<open>A loop that appends one value per round stops at the first round that raises.\<close>

fun collect :: "(error + 'a) list \<Rightarrow> error + 'a list" where
  "collect [] = Inr []"
| "collect (Inl e # rs) = Inl e"
| "collect (Inr v # rs) = (case collect rs of Inl e \<Rightarrow> Inl e | Inr vs \<Rightarrow> Inr (v # vs))"

text \<open>
  The body of the loop of \<^verbatim>\<open>corr_between_replicates\<close>: the correlation matrix is
  computed first, then a group of one row gives NaN and any other group the median of
  the matrix with its diagonal set to NaN. \<^verbatim>\<open>np.corrcoef\<close> is numpy's; the
  function takes it as its first argument, so that what is proved of it holds for the
  float64 routine as for the exact \<open>corrcoef\<close> above.
\<close>

definition replicate_statistic ::
  "(float64 list list \<Rightarrow> float64 list list) \<Rightarrow> dataframe \<Rightarrow> error + float64" where
  "replicate_statistic np_corrcoef grp =
     (case get_featuredata grp of
        Inl e \<Rightarrow> Inl e
      | Inr group_features \<Rightarrow>
          (case float_rows TypeError (rows group_features) of
             Inl e \<Rightarrow> Inl e
           | Inr vals \<Rightarrow>
               (let corr = np_corrcoef vals
                in if length (rows group_features) = 1 then Inr NaN
                   else Inr (nanmedian (fill_diagonal corr)))))"

definition corr_between_replicates ::
  "(float64 list list \<Rightarrow> float64 list list) \<Rightarrow> dataframe \<Rightarrow> string \<Rightarrow> error + float64 list" where
  "corr_between_replicates np_corrcoef df group_by_feature =
     (case groupby df group_by_feature of
        Inl e \<Rightarrow> Inl e
      | Inr replicate_grouped \<Rightarrow>
          collect (map (\<lambda>(name, grp). replicate_statistic np_corrcoef grp) replicate_grouped))"

section \<open>\<^verbatim>\<open>np.corrcoef\<close> in binary64\<close>

text \<open>
  A binary64 number is a finite real, an infinity with its sign (\<open>True\<close>: negative)
  or NaN. \<open>round64\<close> rounds a real number to the nearest binary64 number, ties to
  even: the binade of \<open>x\<close> is the exponent \<open>e\<close> with \<open>2^e \<le> |x| < 2^(e+1)\<close>, the
  spacing of the binary64 numbers around \<open>x\<close> is \<open>2^(e-52)\<close>, and \<open>2^(-1074)\<close>
  below the normal range; a result of magnitude \<open>2^1024\<close> overflows to the infinity.
  The operations are those of IEEE 754, each correctly rounded. Zero carries no sign
  here: the only divisors that can be zero below are square roots and counts, whose
  zero is \<open>+0\<close>.
\<close>

datatype binary64 = Finite real | Infinity bool | NotANumber

definition round_even :: "real \<Rightarrow> int" where
  "round_even y =
     (let f = \<lfloor>y\<rfloor>
      in if y - of_int f < 1 / 2 then f
         else if 1 / 2 < y - of_int f then f + 1
         else if even f then f else f + 1)"

definition pow2 :: "int \<Rightarrow> real" where
  "pow2 e = (if 0 \<le> e then 2 ^ nat e else 1 / 2 ^ nat (- e))"

definition binade :: "real \<Rightarrow> int" where
  "binade x = \<lfloor>log 2 \<bar>x\<bar>\<rfloor>"

definition spacing :: "real \<Rightarrow> real" where
  "spacing x = pow2 (max (binade x) (- 1022) - 52)"

definition round64 :: "real \<Rightarrow> binary64" where
  "round64 x =
     (if x = 0 then Finite 0
      else (let r = of_int (round_even (x / spacing x)) * spacing x
            in if 2 ^ 1024 \<le> \<bar>r\<bar> then Infinity (x < 0) else Finite r))"

fun add64 :: "binary64 \<Rightarrow> binary64 \<Rightarrow> binary64" where
  "add64 (Finite a) (Finite b) = round64 (a + b)"
| "add64 (Finite a) (Infinity t) = Infinity t"
| "add64 (Infinity s) (Finite b) = Infinity s"
| "add64 (Infinity s) (Infinity t) = (if s = t then Infinity s else NotANumber)"
| "add64 _ _ = NotANumber"

fun sub64 :: "binary64 \<Rightarrow> binary64 \<Rightarrow> binary64" where
  "sub64 (Finite a) (Finite b) = round64 (a - b)"
| "sub64 (Finite a) (Infinity t) = Infinity (\<not> t)"
| "sub64 (Infinity s) (Finite b) = Infinity s"
| "sub64 (Infinity s) (Infinity t) = (if s = t then NotANumber else Infinity s)"
| "sub64 _ _ = NotANumber"

fun mul64 :: "binary64 \<Rightarrow> binary64 \<Rightarrow> binary64" where
  "mul64 (Finite a) (Finite b) = round64 (a * b)"
| "mul64 (Finite a) (Infinity t) = (if a = 0 then NotANumber else Infinity (t \<noteq> (a < 0)))"
| "mul64 (Infinity s) (Finite b) = (if b = 0 then NotANumber else Infinity (s \<noteq> (b < 0)))"
| "mul64 (Infinity s) (Infinity t) = Infinity (s \<noteq> t)"
| "mul64 _ _ = NotANumber"

fun div64 :: "binary64 \<Rightarrow> binary64 \<Rightarrow> binary64" where
  "div64 (Finite a) (Finite b) =
     (if b = 0 then (if a = 0 then NotANumber else Infinity (a < 0)) else round64 (a / b))"
| "div64 (Finite a) (Infinity t) = Finite 0"
| "div64 (Infinity s) (Finite b) = Infinity (s \<noteq> (b < 0))"
| "div64 _ _ = NotANumber"

fun sqrt64 :: "binary64 \<Rightarrow> binary64" where
  "sqrt64 (Finite a) = (if a < 0 then NotANumber else round64 (sqrt a))"
| "sqrt64 (Infinity s) = (if s then NotANumber else Infinity False)"
| "sqrt64 NotANumber = NotANumber"

text \<open>
  \<^verbatim>\<open>np.clip(c, -1, 1)\<close> leaves NaN and brings an infinity to the bound; what it
  returns is a finite number or NaN, a \<open>float64\<close> of the tables.
\<close>

fun clip64 :: "binary64 \<Rightarrow> float64" where
  "clip64 (Finite a) = Val (clip (- 1) 1 a)"
| "clip64 (Infinity s) = Val (if s then - 1 else 1)"
| "clip64 NotANumber = NaN"

fun to64 :: "float64 \<Rightarrow> binary64" where
  "to64 NaN = NotANumber"
| "to64 (Val x) = Finite x"

text \<open>
  \<^verbatim>\<open>np.corrcoef\<close> calls \<^verbatim>\<open>np.cov\<close>, which takes the mean of each row (the sum
  divided by the count), subtracts it, multiplies the matrix of the centred rows by its
  transpose and scales the product by \<^verbatim>\<open>np.true_divide(1, fact)\<close>, where
  \<^verbatim>\<open>fact\<close> is the number of columns less one, replaced by \<open>0.0\<close> when it is not
  positive. \<^verbatim>\<open>np.corrcoef\<close> then divides the entry for two rows by the square root
  of the variance of the first, then by that of the second, and clips. Sums are taken
  from left to right; numpy and the BLAS behind \<^verbatim>\<open>np.dot\<close> may associate a
  longer sum differently or fuse a product with a sum, which gives the same result
  wherever the products and partial sums are exact, as they are in the examples below.
\<close>

definition sum64 :: "binary64 list \<Rightarrow> binary64" where
  "sum64 xs = foldl add64 (Finite 0) xs"

definition mean64 :: "binary64 list \<Rightarrow> binary64" where
  "mean64 xs = div64 (sum64 xs) (Finite (real (length xs)))"

definition centered64 :: "binary64 list \<Rightarrow> binary64 list" where
  "centered64 xs = map (\<lambda>x. sub64 x (mean64 xs)) xs"

definition dot64 :: "binary64 list \<Rightarrow> binary64 list \<Rightarrow> binary64" where
  "dot64 xs ys = sum64 (map2 mul64 xs ys)"

definition scale64 :: "nat \<Rightarrow> binary64" where
  "scale64 n = (if n \<le> 1 then Infinity False else round64 (1 / (real n - 1)))"

definition cov_entry64 :: "binary64 list \<Rightarrow> binary64 list \<Rightarrow> binary64" where
  "cov_entry64 xs ys = mul64 (dot64 (centered64 xs) (centered64 ys)) (scale64 (length xs))"

definition corr_entry64 :: "binary64 list \<Rightarrow> binary64 list \<Rightarrow> float64" where
  "corr_entry64 xs ys =
     clip64 (div64 (div64 (cov_entry64 xs ys) (sqrt64 (cov_entry64 xs xs)))
               (sqrt64 (cov_entry64 ys ys)))"

definition corrcoef64 :: "float64 list list \<Rightarrow> float64 list list" where
  "corrcoef64 m = map (\<lambda>a. map (\<lambda>b. corr_entry64 (map to64 a) (map to64 b)) m) m"

section \<open>The single-modality null sampler\<close>

text \<open>
  \<^verbatim>\<open>random.choices(population, k=k)\<close> returns
  \<^verbatim>\<open>[population[floor(random() * n)] for i in range(k)]\<close>. The random source is
  modelled by what it yields: a draw is the list of the \<open>k\<close> indices
  \<^verbatim>\<open>floor(random() * n)\<close>, each below \<open>n\<close>, and a tape is the list of the draws of
  the successive rounds of a loop. On an empty population every pick is out of range.
\<close>

definition choices :: "'a list \<Rightarrow> nat list \<Rightarrow> error + 'a list" where
  "choices population d =
     (if list_all (\<lambda>i. i < length population) d then Inr (map ((!) population) d)
      else Inl IndexError)"

text \<open>\<^verbatim>\<open>df.loc[labels]\<close>: the rows that carry the labels, in the order of the labels.\<close>

definition loc_rows :: "dataframe \<Rightarrow> nat list \<Rightarrow> error + dataframe" where
  "loc_rows df labels =
     (case those (map (find_pos (index df)) labels) of
        None \<Rightarrow> Inl KeyError
      | Some ps \<Rightarrow> Inr (df\<lparr>index := labels, rows := map ((!) (rows df)) ps\<rparr>))"

definition get_column :: "dataframe \<Rightarrow> string \<Rightarrow> error + cell list" where
  "get_column df name =
     (case col_pos df name of
        None \<Rightarrow> Inl KeyError
      | Some j \<Rightarrow> Inr (map (\<lambda>r. r ! j) (rows df)))"

text \<open>
  One round of the loop of \<^verbatim>\<open>corr_between_non_replicates\<close> on the draw \<open>d\<close>:
  \<open>Inr None\<close> when the draw is rejected, \<open>Inr (Some v)\<close> when it is accepted and
  \<open>v\<close> is appended. \<^verbatim>\<open>np.fill_diagonal\<close> raises on the scalar that
  \<^verbatim>\<open>np.corrcoef\<close> returns for a single row.
\<close>

definition non_replicate_draw ::
  "dataframe \<Rightarrow> int \<Rightarrow> string \<Rightarrow> nat list \<Rightarrow> error + float64 option" where
  "non_replicate_draw df n_replicates metadata_compound_name d =
     (case choices [0..<length (rows df)] d of
        Inl e \<Rightarrow> Inl e
      | Inr compounds \<Rightarrow>
     (case loc_rows df compounds of
        Inl e \<Rightarrow> Inl e
      | Inr sample \<Rightarrow>
     (case get_column sample metadata_compound_name of
        Inl e \<Rightarrow> Inl e
      | Inr ids \<Rightarrow>
          if int (length (remdups ids)) = n_replicates then
            (case get_featuredata sample of
               Inl e \<Rightarrow> Inl e
             | Inr sample_features \<Rightarrow>
            (case float_rows TypeError (rows sample_features) of
               Inl e \<Rightarrow> Inl e
             | Inr vals \<Rightarrow>
                 (let corr = corrcoef vals
                  in if length vals = 1 then Inl ValueError
                     else Inr (Some (nanmedian (fill_diagonal corr))))))
          else Inr None)))"

text \<open>
  The \<^verbatim>\<open>while\<close> loop, one draw of the tape per round. The result is \<open>None\<close> when
  the tape ends while the loop is still running.
\<close>

fun non_replicates_loop ::
  "dataframe \<Rightarrow> int \<Rightarrow> int \<Rightarrow> string \<Rightarrow> nat list list \<Rightarrow> float64 list
     \<Rightarrow> (error + float64 list) option" where
  "non_replicates_loop df n_samples n_replicates name [] null_corr =
     (if int (length null_corr) < n_samples then None else Some (Inr null_corr))"
| "non_replicates_loop df n_samples n_replicates name (d # tape) null_corr =
     (if int (length null_corr) < n_samples then
        (case non_replicate_draw df n_replicates name d of
           Inl e \<Rightarrow> Some (Inl e)
         | Inr None \<Rightarrow> non_replicates_loop df n_samples n_replicates name tape null_corr
         | Inr (Some v) \<Rightarrow>
             non_replicates_loop df n_samples n_replicates name tape (null_corr @ [v]))
      else Some (Inr null_corr))"

definition corr_between_non_replicates ::
  "dataframe \<Rightarrow> int \<Rightarrow> int \<Rightarrow> string \<Rightarrow> nat list list \<Rightarrow> (error + float64 list) option" where
  "corr_between_non_replicates df n_samples n_replicates metadata_compound_name tape =
     non_replicates_loop (reset_index df) n_samples n_replicates metadata_compound_name tape []"

section \<open>The cross-modality null sampler\<close>

text \<open>
  \<^verbatim>\<open>np.intersect1d\<close> gives the sorted values that occur in both lists, each once
  (a NaN equals nothing and is left out). \<^verbatim>\<open>pd.concat(..., join='inner')\<close> stacks
  the rows of two tables on the columns that both have. \<^verbatim>\<open>Series.unique\<close> keeps
  the first occurrence of every value.
\<close>

definition intersect1d :: "cell list \<Rightarrow> cell list \<Rightarrow> cell list" where
  "intersect1d a b = sort_cells (remdups (filter (\<lambda>x. x \<in> set b \<and> \<not> isna x) a))"

definition concat_inner :: "dataframe \<Rightarrow> dataframe \<Rightarrow> error + dataframe" where
  "concat_inner a b =
     (let cs = filter (\<lambda>c. c \<in> set (columns b)) (columns a)
      in case select_columns a cs of
           Inl e \<Rightarrow> Inl e
         | Inr a' \<Rightarrow>
             (case select_columns b cs of
                Inl e \<Rightarrow> Inl e
              | Inr b' \<Rightarrow>
                  Inr \<lparr>columns = cs, index = index a' @ index b', rows = rows a' @ rows b'\<rparr>))"

definition query_eq :: "dataframe \<Rightarrow> string \<Rightarrow> cell \<Rightarrow> error + dataframe" where
  "query_eq df name v =
     (case col_pos df name of
        None \<Rightarrow> Inl UndefinedVariableError
      | Some j \<Rightarrow> Inr (keep_rows (\<lambda>r. cell_eq (r ! j) v) df))"

text \<open>\<^verbatim>\<open>df.loc[df[name] == v]\<close>.\<close>

definition loc_eq :: "dataframe \<Rightarrow> string \<Rightarrow> cell \<Rightarrow> error + dataframe" where
  "loc_eq df name v =
     (case col_pos df name of
        None \<Rightarrow> Inl KeyError
      | Some j \<Rightarrow> Inr (keep_rows (\<lambda>r. cell_eq (r ! j) v) df))"

definition unique :: "'a list \<Rightarrow> 'a list" where
  "unique xs = rev (remdups (rev xs))"

text \<open>
  The body of the two inner loops: the rows of one perturbation of each modality, the
  correlation matrix of the two blocks of feature vectors stacked, its block of the
  rows of the first against the rows of the second, and the median of that block.
\<close>

definition cross_statistic ::
  "dataframe \<Rightarrow> dataframe \<Rightarrow> string \<Rightarrow> cell \<Rightarrow> cell \<Rightarrow> error + float64" where
  "cross_statistic modality_1_perturbation_df modality_2_perturbation_df metadata_perturbation
     sample_1 sample_2 =
     (case loc_eq modality_1_perturbation_df metadata_perturbation sample_1 of
        Inl e \<Rightarrow> Inl e
      | Inr modality_1_perturbation_sample_df \<Rightarrow>
     (case loc_eq modality_2_perturbation_df metadata_perturbation sample_2 of
        Inl e \<Rightarrow> Inl e
      | Inr modality_2_perturbation_sample_df \<Rightarrow>
     (case get_featuredata modality_1_perturbation_sample_df of
        Inl e \<Rightarrow> Inl e
      | Inr f1 \<Rightarrow>
     (case get_featuredata modality_2_perturbation_sample_df of
        Inl e \<Rightarrow> Inl e
      | Inr f2 \<Rightarrow>
     (case float_rows TypeError (rows f1) of
        Inl e \<Rightarrow> Inl e
      | Inr modality_1_perturbation_profiles \<Rightarrow>
     (case float_rows TypeError (rows f2) of
        Inl e \<Rightarrow> Inl e
      | Inr modality_2_perturbation_profiles \<Rightarrow>
          (let corr = corrcoef (modality_1_perturbation_profiles @ modality_2_perturbation_profiles);
               n1 = length modality_1_perturbation_profiles
           in Inr (nanmedian (map (drop n1) (take n1 corr))))))))))"

text \<open>
  One round of the \<^verbatim>\<open>while\<close> loop of \<^verbatim>\<open>null_correlation_between_modalities\<close>
  on the draw \<open>d\<close> of two indices: the statistics it appends.
\<close>

definition null_modalities_round ::
  "cell list \<Rightarrow> dataframe \<Rightarrow> dataframe \<Rightarrow> string \<Rightarrow> string \<Rightarrow> nat list
     \<Rightarrow> error + float64 list" where
  "null_modalities_round list_common_perturbation_groups modality_1_df modality_2_df
     metadata_common metadata_perturbation d =
     (case choices list_common_perturbation_groups d of
        Inl e \<Rightarrow> Inl e
      | Inr perturbations \<Rightarrow>
     (case perturbations of
        [p0, p1] \<Rightarrow>
          (case loc_eq modality_1_df metadata_common p0 of
             Inl e \<Rightarrow> Inl e
           | Inr modality_1_perturbation_df \<Rightarrow>
          (case loc_eq modality_2_df metadata_common p1 of
             Inl e \<Rightarrow> Inl e
           | Inr modality_2_perturbation_df \<Rightarrow>
          (case get_column modality_1_perturbation_df metadata_perturbation of
             Inl e \<Rightarrow> Inl e
           | Inr c1 \<Rightarrow>
          (case get_column modality_2_perturbation_df metadata_perturbation of
             Inl e \<Rightarrow> Inl e
           | Inr c2 \<Rightarrow>
               collect (concat (map (\<lambda>sample_1. map (\<lambda>sample_2.
                   cross_statistic modality_1_perturbation_df modality_2_perturbation_df
                     metadata_perturbation sample_1 sample_2) (unique c2)) (unique c1)))))))
      | _ \<Rightarrow> Inl IndexError))"

fun null_modalities_loop ::
  "cell list \<Rightarrow> dataframe \<Rightarrow> dataframe \<Rightarrow> string \<Rightarrow> string \<Rightarrow> int \<Rightarrow> nat list list
     \<Rightarrow> int \<Rightarrow> float64 list \<Rightarrow> (error + float64 list) option" where
  "null_modalities_loop groups m1 m2 common pert n_samples [] count null_modalities =
     (if count < n_samples then None else Some (Inr null_modalities))"
| "null_modalities_loop groups m1 m2 common pert n_samples (d # tape) count null_modalities =
     (if count < n_samples then
        (case null_modalities_round groups m1 m2 common pert d of
           Inl e \<Rightarrow> Some (Inl e)
         | Inr vs \<Rightarrow>
             null_modalities_loop groups m1 m2 common pert n_samples tape (count + 1)
               (null_modalities @ vs))
      else Some (Inr null_modalities))"

definition null_correlation_between_modalities ::
  "dataframe \<Rightarrow> dataframe \<Rightarrow> string \<Rightarrow> string \<Rightarrow> string \<Rightarrow> string \<Rightarrow> int \<Rightarrow> nat list list
     \<Rightarrow> (error + float64 list) option" where
  "null_correlation_between_modalities modality_1_df modality_2_df modality_1 modality_2
     metadata_common metadata_perturbation n_samples tape =
     (case get_column modality_1_df metadata_common of
        Inl e \<Rightarrow> Some (Inl e)
      | Inr k1 \<Rightarrow>
     (case get_column modality_2_df metadata_common of
        Inl e \<Rightarrow> Some (Inl e)
      | Inr k2 \<Rightarrow>
     (case concat_inner modality_1_df modality_2_df of
        Inl e \<Rightarrow> Some (Inl e)
      | Inr merged_df \<Rightarrow>
     (case query_eq merged_df ''Metadata_modality'' (Str modality_1) of
        Inl e \<Rightarrow> Some (Inl e)
      | Inr m1 \<Rightarrow>
     (case query_eq merged_df ''Metadata_modality'' (Str modality_2) of
        Inl e \<Rightarrow> Some (Inl e)
      | Inr m2 \<Rightarrow>
          null_modalities_loop (intersect1d k1 k2) m1 m2 metadata_common metadata_perturbation
            n_samples tape 0 [])))))"

section \<open>The sphering transformer\<close>

text \<open>
  A two-dimensional float array carries its shape, so that an array without rows still
  has its number of columns.
\<close>

record ndarray =
  nrows :: nat
  ncols :: nat
  entries :: "float64 list list"

definition wf_array :: "ndarray \<Rightarrow> bool" where
  "wf_array a = (length (entries a) = nrows a \<and> list_all (\<lambda>r. length r = ncols a) (entries a))"

fun fsub :: "float64 \<Rightarrow> float64 \<Rightarrow> float64" where
  "fsub (Val a) (Val b) = Val (a - b)"
| "fsub _ _ = NaN"

fun fmul :: "float64 \<Rightarrow> float64 \<Rightarrow> float64" where
  "fmul (Val a) (Val b) = Val (a * b)"
| "fmul _ _ = NaN"

definition fsum :: "float64 list \<Rightarrow> float64" where
  "fsum xs = foldr fadd xs (Val 0)"

definition fmean :: "float64 list \<Rightarrow> float64" where
  "fmean xs =
     (case all_finite xs of
        None \<Rightarrow> NaN
      | Some rs \<Rightarrow> if rs = [] then NaN else Val (mean rs))"

text \<open>
  \<^verbatim>\<open>X - v\<close> for an array of shape \<open>(n, m)\<close> and a vector of length \<open>d\<close>, as
  numpy broadcasts it: the shapes agree when \<open>m = d\<close>, and an axis of length one is
  stretched to the other's length; any other pair of shapes raises.
\<close>

definition subtract_broadcast :: "ndarray \<Rightarrow> float64 list \<Rightarrow> error + ndarray" where
  "subtract_broadcast X v =
     (if ncols X = length v then
        Inr (X\<lparr>entries := map (\<lambda>r. map2 fsub r v) (entries X)\<rparr>)
      else if ncols X = 1 then
        Inr \<lparr>nrows = nrows X, ncols = length v,
             entries = map (\<lambda>r. map (\<lambda>m. fsub (r ! 0) m) v) (entries X)\<rparr>
      else if length v = 1 then
        Inr (X\<lparr>entries := map (\<lambda>r. map (\<lambda>x. fsub x (v ! 0)) r) (entries X)\<rparr>)
      else Inl ValueError)"

text \<open>The transpose \<^verbatim>\<open>A.T\<close> and the matrix product \<^verbatim>\<open>np.dot(A, B)\<close>.\<close>

definition transposed :: "ndarray \<Rightarrow> ndarray" where
  "transposed a =
     \<lparr>nrows = ncols a, ncols = nrows a,
      entries = map (\<lambda>j. map (\<lambda>r. r ! j) (entries a)) [0..<ncols a]\<rparr>"

definition np_dot :: "ndarray \<Rightarrow> ndarray \<Rightarrow> error + ndarray" where
  "np_dot a b =
     (if ncols a = nrows b then
        Inr \<lparr>nrows = nrows a, ncols = ncols b,
             entries = map (\<lambda>r. map (\<lambda>j. fsum (map2 fmul r (map (\<lambda>c. c ! j) (entries b))))
                                [0..<ncols b]) (entries a)\<rparr>
      else Inl ValueError)"

text \<open>
  The transformer holds \<^verbatim>\<open>copy\<close> and, once fitted, the attributes
  \<^verbatim>\<open>mean_\<close> and \<^verbatim>\<open>sphere_\<close> (the fields \<open>zca_mean\<close> and \<open>zca_sphere\<close>);
  an attribute that is not set is \<open>None\<close>.
\<close>

record zca_corr =
  copy :: bool
  zca_mean :: "float64 list option"
  zca_sphere :: "ndarray option"

definition ZCA_corr :: zca_corr where
  "ZCA_corr = \<lparr>copy = False, zca_mean = None, zca_sphere = None\<rparr>"

text \<open>
  \<^verbatim>\<open>check_array\<close> of scikit-learn, as \<^verbatim>\<open>fit\<close> calls it: a float array needs at
  least one row and one column and no NaN.
\<close>

definition check_array :: "ndarray \<Rightarrow> error + ndarray" where
  "check_array X =
     (if nrows X = 0 \<or> ncols X = 0 \<or> \<not> list_all (list_all (\<lambda>x. x \<noteq> NaN)) (entries X)
      then Inl ValueError else Inr X)"

definition column_means :: "ndarray \<Rightarrow> float64 list" where
  "column_means X = map (\<lambda>j. fmean (map (\<lambda>r. r ! j) (entries X))) [0..<ncols X]"

text \<open>
  \<^verbatim>\<open>fit\<close>. The covariance, the correlation matrix, its singular value
  decomposition (\<^verbatim>\<open>scipy.linalg.svd\<close>), the elbow of the singular values
  (\<^verbatim>\<open>kneed.KneeLocator\<close>) and the products that give the sphering matrix, lines
  215 to 224, are float linear algebra of libraries outside the repository: they are the
  parameter \<open>whiten\<close>, which receives the centred data and returns the sphering matrix
  or raises.
\<close>

definition fit ::
  "(ndarray \<Rightarrow> error + ndarray) \<Rightarrow> zca_corr \<Rightarrow> ndarray \<Rightarrow> error + zca_corr" where
  "fit whiten self X0 =
     (case check_array X0 of
        Inl e \<Rightarrow> Inl e
      | Inr X \<Rightarrow>
          (let m = column_means X
           in case subtract_broadcast X m of
                Inl e \<Rightarrow> Inl e
              | Inr Xc \<Rightarrow>
                  (case whiten Xc of
                     Inl e \<Rightarrow> Inl e
                   | Inr W \<Rightarrow> Inr (self\<lparr>zca_mean := Some m, zca_sphere := Some W\<rparr>))))"

text \<open>
  \<^verbatim>\<open>transform\<close>: \<^verbatim>\<open>check_is_fitted(self, "mean_")\<close> raises when the attribute
  \<^verbatim>\<open>mean_\<close> is not set; \<^verbatim>\<open>as_float_array\<close> returns a float array as it is; the
  result is \<^verbatim>\<open>np.dot(X - self.mean_, self.sphere_.T)\<close>.
\<close>

definition transform :: "zca_corr \<Rightarrow> ndarray \<Rightarrow> error + ndarray" where
  "transform self X =
     (case zca_mean self of
        None \<Rightarrow> Inl NotFittedError
      | Some m \<Rightarrow>
          (case zca_sphere self of
             None \<Rightarrow> Inl AttributeError
           | Some W \<Rightarrow>
               (case subtract_broadcast X m of
                  Inl e \<Rightarrow> Inl e
                | Inr Y \<Rightarrow> np_dot Y (transposed W))))"

section \<open>Sphering a plate\<close>

text \<open>
  \<^verbatim>\<open>to_numpy\<close> followed by the conversion to floats that \<^verbatim>\<open>check_array\<close> and
  \<^verbatim>\<open>as_float_array\<close> make: a string cell raises \<^verbatim>\<open>ValueError\<close>.
  \<^verbatim>\<open>pd.DataFrame(values, columns=..., index=...)\<close> raises when the shape of the
  values is not that of the labels. \<^verbatim>\<open>pd.concat([a, b], axis=1)\<close> is modelled for
  two tables with the same row labels, which is how the function calls it.
\<close>

definition to_float_array :: "dataframe \<Rightarrow> error + ndarray" where
  "to_float_array df =
     (case float_rows ValueError (rows df) of
        Inl e \<Rightarrow> Inl e
      | Inr v \<Rightarrow> Inr \<lparr>nrows = length (rows df), ncols = length (columns df), entries = v\<rparr>)"

definition DataFrame :: "ndarray \<Rightarrow> string list \<Rightarrow> nat list \<Rightarrow> error + dataframe" where
  "DataFrame a cols idx =
     (if nrows a = length idx \<and> ncols a = length cols
      then Inr \<lparr>columns = cols, index = idx, rows = map (map Num) (entries a)\<rparr>
      else Inl ValueError)"

definition concat_columns :: "dataframe \<Rightarrow> dataframe \<Rightarrow> dataframe" where
  "concat_columns a b =
     \<lparr>columns = columns a @ columns b, index = index a, rows = map2 (@) (rows a) (rows b)\<rparr>"

definition sphere_plate_zca_corr ::
  "(ndarray \<Rightarrow> error + ndarray) \<Rightarrow> dataframe \<Rightarrow> error + dataframe" where
  "sphere_plate_zca_corr whiten plate =
     (let sphereer = ZCA_corr in
      case col_pos plate ''Metadata_control_type'' of
        None \<Rightarrow> Inl AttributeError
      | Some j \<Rightarrow>
     (let dmso_df = keep_rows (\<lambda>r. cell_eq (r ! j) (Str ''negcon'')) plate in
      case get_featuredata dmso_df of
        Inl e \<Rightarrow> Inl e
      | Inr dmso_features \<Rightarrow>
     (case get_featuredata plate of
        Inl e \<Rightarrow> Inl e
      | Inr all_features \<Rightarrow>
     (case to_float_array dmso_features of
        Inl e \<Rightarrow> Inl e
      | Inr dmso_vals \<Rightarrow>
     (case fit whiten sphereer dmso_vals of
        Inl e \<Rightarrow> Inl e
      | Inr fitted \<Rightarrow>
     (case to_float_array all_features of
        Inl e \<Rightarrow> Inl e
      | Inr all_vals \<Rightarrow>
     (case transform fitted all_vals of
        Inl e \<Rightarrow> Inl e
      | Inr sphereed_vals \<Rightarrow>
     (case DataFrame sphereed_vals (get_featurecols plate) (index plate) of
        Inl e \<Rightarrow> Inl e
      | Inr feature_df \<Rightarrow>
     (case get_metadata plate of
        Inl e \<Rightarrow> Inl e
      | Inr metadata \<Rightarrow>
          (let combined = concat_columns feature_df metadata
           in if shape combined = shape plate then Inr combined
              else Inl AssertionError))))))))))"

section \<open>Example tables and the predicates of the statements\<close>

text \<open>
  A row is flagged as a negative control when its control type equals \<^verbatim>\<open>negcon\<close>,
  and lacks a perturbation identifier when that cell is missing.
\<close>

definition is_negcon :: "nat \<Rightarrow> cell list \<Rightarrow> bool" where
  "is_negcon i r = cell_eq (r ! i) (Str ''negcon'')"

definition lacks_id :: "nat \<Rightarrow> cell list \<Rightarrow> bool" where
  "lacks_id j r = isna (r ! j)"

definition plate_bare :: dataframe where
  "plate_bare =
     \<lparr>columns = [''Metadata_control_type'', ''Metadata'', ''Cells_Area''],
      index = [0, 1],
      rows = [[Str ''negcon'', Str ''x'', Num (Val 1)],
              [Str ''negcon'', Str ''y'', Num (Val 3)]]\<rparr>"

definition wells4 :: dataframe where
  "wells4 =
     \<lparr>columns = [''Metadata_control_type'', ''Metadata_broad_sample'', ''Cells_Area''],
      index = [0, 1, 2, 3],
      rows = [[Str ''negcon'', Num NaN, Num (Val 1)],
              [Str ''negcon'', Str ''DMSO'', Num (Val 2)],
              [Num NaN, Num NaN, Num (Val 3)],
              [Num NaN, Str ''BRD-A'', Num (Val 4)]]\<rparr>"

text \<open>
  The positions of the feature columns, the feature vectors of a list of rows, the
  tables whose feature cells are all numbers, the cells of a column, the rows of a
  group, and the entries of a matrix outside its diagonal, row by row.
\<close>

definition feature_positions :: "string list \<Rightarrow> nat list" where
  "feature_positions cs = filter (\<lambda>j. \<not> startswith (cs ! j) ''Metadata'') [0..<length cs]"

definition feature_vectors :: "dataframe \<Rightarrow> cell list list \<Rightarrow> float64 list list" where
  "feature_vectors df rs =
     map (\<lambda>r. map (\<lambda>j. the (cell_float (r ! j))) (feature_positions (columns df))) rs"

definition numeric_features :: "dataframe \<Rightarrow> bool" where
  "numeric_features df =
     list_all (\<lambda>r. list_all (\<lambda>j. cell_float (r ! j) \<noteq> None) (feature_positions (columns df)))
       (rows df)"

definition column_cells :: "dataframe \<Rightarrow> nat \<Rightarrow> cell list" where
  "column_cells df j = map (\<lambda>r. r ! j) (rows df)"

definition group_rows :: "dataframe \<Rightarrow> nat \<Rightarrow> cell \<Rightarrow> cell list list" where
  "group_rows df j k = filter (\<lambda>r. r ! j = k) (rows df)"

definition off_diagonal :: "'a list list \<Rightarrow> 'a list" where
  "off_diagonal m = concat (map (\<lambda>i. take i (m ! i) @ drop (Suc i) (m ! i)) [0..<length m])"

definition group_statistic ::
  "(float64 list list \<Rightarrow> float64 list list) \<Rightarrow> float64 list list \<Rightarrow> float64" where
  "group_statistic np_corrcoef vals =
     (if length vals = 1 then NaN else nanmedian [off_diagonal (np_corrcoef vals)])"

definition replicates5 :: dataframe where
  "replicates5 =
     \<lparr>columns = [''Metadata_pert_iname'', ''Cells_a'', ''Cells_b'', ''Cells_c''],
      index = [0, 1, 2, 3, 4],
      rows = [[Str ''C'', Num (Val 1), Num (Val 2), Num (Val 3)],
              [Str ''B'', Num (Val 4), Num (Val 5), Num (Val 6)],
              [Str ''A'', Num (Val 5), Num (Val 6), Num (Val 7)],
              [Str ''B'', Num (Val 4), Num (Val 5), Num (Val 6)],
              [Str ''C'', Num (Val 3), Num (Val 2), Num (Val 1)]]\<rparr>"

text \<open>
  The binary64 numbers that the example \<open>twins02\<close> meets (the rounded square root
  of 2, the rounded quotient of 2 by it, and the number just below 1), and two
  examples of one group of two equal rows: \<open>(0, 2)\<close> and \<open>(0, 2^700)\<close>.
\<close>

definition sqrt2_64 :: real where
  "sqrt2_64 = 6369051672525773 / 2 ^ 52"

definition quotient_64 :: real where
  "quotient_64 = 6369051672525772 / 2 ^ 52"

definition below_one :: real where
  "below_one = 1 - 1 / 2 ^ 53"

definition big :: real where
  "big = 2 ^ 700"

definition half_big :: real where
  "half_big = 2 ^ 699"

definition twins02 :: dataframe where
  "twins02 =
     \<lparr>columns = [''Metadata_pert_iname'', ''Cells_a'', ''Cells_b''],
      index = [0, 1],
      rows = [[Str ''A'', Num (Val 0), Num (Val 2)],
              [Str ''A'', Num (Val 0), Num (Val 2)]]\<rparr>"

definition twins_big :: dataframe where
  "twins_big =
     \<lparr>columns = [''Metadata_pert_iname'', ''Cells_a'', ''Cells_b''],
      index = [0, 1],
      rows = [[Str ''A'', Num (Val 0), Num (Val big)],
              [Str ''A'', Num (Val 0), Num (Val big)]]\<rparr>"

text \<open>
  A valid draw of \<open>k\<close> rows of a table: \<open>k\<close> row positions of the table.
\<close>

definition valid_draw :: "dataframe \<Rightarrow> int \<Rightarrow> nat list \<Rightarrow> bool" where
  "valid_draw df k d = (int (length d) = k \<and> list_all (\<lambda>i. i < length (rows df)) d)"

definition ids2 :: dataframe where
  "ids2 =
     \<lparr>columns = [''Metadata_broad_sample'', ''Cells_a'', ''Cells_b'', ''Cells_c''],
      index = [7, 9],
      rows = [[Str ''BRD-A'', Num (Val 1), Num (Val 2), Num (Val 3)],
              [Str ''BRD-B'', Num (Val 3), Num (Val 2), Num (Val 1)]]\<rparr>"

definition ids0 :: dataframe where
  "ids0 =
     \<lparr>columns = [''Metadata_broad_sample'', ''Cells_a'', ''Cells_b'', ''Cells_c''],
      index = [], rows = []\<rparr>"

definition compounds2 :: dataframe where
  "compounds2 =
     \<lparr>columns = [''Metadata_modality'', ''Metadata_genes'', ''Metadata_broad_sample'',
                 ''Cells_a'', ''Cells_b'', ''Cells_c''],
      index = [0, 1],
      rows = [[Str ''Compounds'', Str ''G1'', Str ''BRD-A'', Num (Val 1), Num (Val 2), Num (Val 3)],
              [Str ''Compounds'', Str ''G2'', Str ''BRD-B'', Num (Val 3), Num (Val 2), Num (Val 1)]]\<rparr>"

definition crispr2 :: dataframe where
  "crispr2 =
     \<lparr>columns = [''Metadata_modality'', ''Metadata_genes'', ''Metadata_broad_sample'',
                 ''Cells_a'', ''Cells_b'', ''Cells_c''],
      index = [0, 1],
      rows = [[Str ''CRISPR'', Str ''G1'', Str ''sg-1'', Num (Val 4), Num (Val 5), Num (Val 6)],
              [Str ''CRISPR'', Str ''G2'', Str ''sg-2'', Num (Val 6), Num (Val 5), Num (Val 4)]]\<rparr>"

text \<open>
  A transformer fitted on \<open>d\<close> features holds a mean vector of length \<open>d\<close> and a
  \<open>d \<times> d\<close> sphering matrix. The columns of a table are classified when each is a
  metadata or a feature column for the accessor. The control rows are the rows whose
  control type equals \<^verbatim>\<open>negcon\<close>. \<open>identity_whiten\<close> is a whitening
  computation that returns the identity matrix.
\<close>

definition fitted :: "nat \<Rightarrow> zca_corr \<Rightarrow> bool" where
  "fitted d self =
     (case zca_mean self of
        None \<Rightarrow> False
      | Some m \<Rightarrow>
          (case zca_sphere self of
             None \<Rightarrow> False
           | Some W \<Rightarrow> length m = d \<and> nrows W = d \<and> ncols W = d))"

definition eye2 :: ndarray where
  "eye2 = \<lparr>nrows = 2, ncols = 2, entries = [[Val 1, Val 0], [Val 0, Val 1]]\<rparr>"

definition reference22 :: ndarray where
  "reference22 = \<lparr>nrows = 2, ncols = 2, entries = [[Val 1, Val 2], [Val 3, Val 4]]\<rparr>"

definition fitted22 :: zca_corr where
  "fitted22 = \<lparr>copy = False, zca_mean = Some [Val 2, Val 3], zca_sphere = Some eye2\<rparr>"

definition column1 :: ndarray where
  "column1 = \<lparr>nrows = 1, ncols = 1, entries = [[Val 5]]\<rparr>"

definition columns3 :: ndarray where
  "columns3 = \<lparr>nrows = 1, ncols = 3, entries = [[Val 5, Val 6, Val 7]]\<rparr>"



definition identity_whiten :: "ndarray \<Rightarrow> error + ndarray" where
  "identity_whiten A =
     Inr \<lparr>nrows = ncols A, ncols = ncols A,
          entries = map (\<lambda>i. map (\<lambda>j. if i = j then Val 1 else Val 0) [0..<ncols A])
                      [0..<ncols A]\<rparr>"

definition plate3 :: dataframe where
  "plate3 =
     \<lparr>columns = [''Metadata_control_type'', ''Metadata_Well'', ''Cells_a'', ''Cells_b''],
      index = [0, 1, 2],
      rows = [[Str ''negcon'', Str ''A01'', Num (Val 1), Num (Val 2)],
              [Str ''negcon'', Str ''A02'', Num (Val 3), Num (Val 4)],
              [Num NaN, Str ''A03'', Num (Val 5), Num (Val 6)]]\<rparr>"



section \<open>The accessor\<close>



lemma accessor_cover:
  "(set (get_metacols df) \<union> set (get_featurecols df) = set (columns df)) =
   (\<forall>c \<in> set (columns df). startswith c ''Metadata'' \<longrightarrow> startswith c ''Metadata_'')"
  by (auto simp: get_metacols_def get_featurecols_def)

text \<open>
  C9. The two column lists are always disjoint (\<open>accessor_disjoint\<close>), but they
  cover the columns only when no label starts with \<^verbatim>\<open>Metadata\<close> without the
  underscore (\<open>accessor_cover\<close>): \<^verbatim>\<open>get_metacols\<close> tests the prefix
  \<^verbatim>\<open>Metadata_\<close> and \<^verbatim>\<open>get_featurecols\<close> the prefix \<^verbatim>\<open>Metadata\<close>. On a
  table with a column labelled \<^verbatim>\<open>Metadata\<close> that column is in neither list.
\<close>

theorem accessor_misses_bare_prefix:
  "get_metacols plate_bare = [''Metadata_control_type''] \<and>
   get_featurecols plate_bare = [''Cells_Area''] \<and>
   ''Metadata'' \<in> set (columns plate_bare) \<and>
   ''Metadata'' \<notin> set (get_metacols plate_bare) \<union> set (get_featurecols plate_bare)"
  by (simp add: plate_bare_def get_metacols_def get_featurecols_def startswith_def)

section \<open>The well filter\<close>

lemma keep_rows_columns: "columns (keep_rows P df) = columns df"
  by (simp add: keep_rows_def)

lemma keep_rows_rows: "rows (keep_rows P df) = filter P (rows df)"
  by (simp add: keep_rows_def)

text \<open>
  C3, as amended. On a table that has the two columns, the filter returns the rows that
  are neither flagged as negative control nor lacking a perturbation identifier, in
  their order, relabelled from 0: a row is removed as soon as one of the two
  conditions holds.
\<close>

theorem remove_negcon_empty_wells_either:
  assumes "col_pos df ''Metadata_control_type'' = Some i"
    and "col_pos df ''Metadata_broad_sample'' = Some j"
  shows "\<exists>out. remove_negcon_empty_wells df = Inr out \<and>
           columns out = columns df \<and>
           rows out = filter (\<lambda>r. \<not> (is_negcon i r \<or> lacks_id j r)) (rows df) \<and>
           index out = [0..<length (rows out)]"
proof -
  let ?d1 = "keep_rows (\<lambda>r. cell_ne (r ! i) (Str ''negcon'')) df"
  have q: "query_ne df ''Metadata_control_type'' (Str ''negcon'') = Inr ?d1"
    using assms(1) by (simp add: query_ne_def)
  have "col_pos ?d1 ''Metadata_broad_sample'' = Some j"
    using assms(2) by (simp add: col_pos_def keep_rows_columns)
  then have d: "dropna ?d1 ''Metadata_broad_sample''
                = Inr (keep_rows (\<lambda>r. \<not> isna (r ! j)) ?d1)"
    by (simp add: dropna_def)
  have r: "remove_negcon_empty_wells df
           = Inr (reset_index (keep_rows (\<lambda>r. \<not> isna (r ! j)) ?d1))"
    by (simp add: remove_negcon_empty_wells_def q d)
  show ?thesis
    unfolding r
    by (auto simp: reset_index_def keep_rows_def is_negcon_def lacks_id_def cell_ne_def
        intro: filter_cong)
qed

text \<open>
  C3, witness: the table \<open>wells4\<close> has the two columns at positions 0 and 1, and
  only its last row is kept.
\<close>

theorem remove_negcon_empty_wells_either_witness:
  "col_pos wells4 ''Metadata_control_type'' = Some 0 \<and>
   col_pos wells4 ''Metadata_broad_sample'' = Some 1 \<and>
   (\<exists>out. remove_negcon_empty_wells wells4 = Inr out \<and>
      columns out = columns wells4 \<and>
      rows out = [[Num NaN, Str ''BRD-A'', Num (Val 4)]] \<and>
      index out = [0])"
proof -
  have a: "col_pos wells4 ''Metadata_control_type'' = Some 0"
    by (simp add: col_pos_def wells4_def)
  have b: "col_pos wells4 ''Metadata_broad_sample'' = Some 1"
    by (simp add: col_pos_def wells4_def)
  have c: "filter (\<lambda>r. \<not> (is_negcon 0 r \<or> lacks_id 1 r)) (rows wells4)
           = [[Num NaN, Str ''BRD-A'', Num (Val 4)]]"
    by (simp add: wells4_def is_negcon_def lacks_id_def cell_eq_def isna_def)
  from remove_negcon_empty_wells_either [OF a b] c a b show ?thesis
    by auto
qed

text \<open>
  C3, counterexample to the claim as stated. In \<open>wells4\<close> the second row is a
  negative control that has an identifier and the third row lacks the identifier
  without being a negative control. Removing only the rows that meet both conditions
  would keep three rows; the function keeps one.
\<close>

theorem remove_negcon_empty_wells_not_both:
  "remove_negcon_empty_wells wells4 =
     Inr \<lparr>columns = [''Metadata_control_type'', ''Metadata_broad_sample'', ''Cells_Area''],
          index = [0],
          rows = [[Num NaN, Str ''BRD-A'', Num (Val 4)]]\<rparr> \<and>
   filter (\<lambda>r. \<not> (is_negcon 0 r \<and> lacks_id 1 r)) (rows wells4) =
     [[Str ''negcon'', Str ''DMSO'', Num (Val 2)],
      [Num NaN, Num NaN, Num (Val 3)],
      [Num NaN, Str ''BRD-A'', Num (Val 4)]]"
  by (simp add: remove_negcon_empty_wells_def query_ne_def dropna_def col_pos_def keep_rows_def
      reset_index_def wells4_def is_negcon_def lacks_id_def cell_eq_def cell_ne_def isna_def)

section \<open>The percent score\<close>

text \<open>
  C7. In the mode \<^verbatim>\<open>both\<close> the score is the sum of the scores of the modes
  \<^verbatim>\<open>right\<close> and \<^verbatim>\<open>left\<close> on the same inputs, and the two thresholds are theirs:
  the 95th and the 5th percentile of the null distribution, NaNs ignored.
\<close>

theorem percent_score_both_is_right_plus_left:
  "\<exists>sr sl.
     percent_score null_dist corr_dist ''right'' = Some (Pair sr (nanpercentile null_dist 95)) \<and>
     percent_score null_dist corr_dist ''left'' = Some (Pair sl (nanpercentile null_dist 5)) \<and>
     percent_score null_dist corr_dist ''both'' =
       Some (Triple (fadd sr sl) (nanpercentile null_dist 95) (nanpercentile null_dist 5))"
  by (simp add: percent_score_def Let_def)

text \<open>
  C10. The function returns \<^verbatim>\<open>None\<close> exactly when the mode is none of
  \<^verbatim>\<open>left\<close>, \<^verbatim>\<open>right\<close> and \<^verbatim>\<open>both\<close>: no branch is taken, nothing is
  computed and nothing is raised.
\<close>

theorem percent_score_unknown_mode:
  "(percent_score null_dist corr_dist how = None) = (how \<notin> {''left'', ''right'', ''both''})"
  by (simp add: percent_score_def Let_def)

text \<open>C10, witness: the mode \<^verbatim>\<open>up\<close>.\<close>

theorem percent_score_unknown_mode_witness:
  "''up'' \<notin> {''left'', ''right'', ''both''} \<and> percent_score [Val 0, NaN] [Val 1] ''up'' = None"
  using percent_score_unknown_mode [of "[Val 0, NaN]" "[Val 1]" "''up''"] by simp

section \<open>Replicate correlation\<close>

lemma finite_values_append: "finite_values (xs @ ys) = finite_values xs @ finite_values ys"
  by (induction xs rule: finite_values.induct) auto

lemma finite_values_concat: "finite_values (concat m) = concat (map finite_values m)"
  by (induction m) (auto simp: finite_values_append)

lemma finite_values_update_NaN:
  "finite_values (r[i := NaN]) = finite_values (take i r @ drop (Suc i) r)"
proof (cases "i < length r")
  case True
  then have "r[i := NaN] = take i r @ NaN # drop (Suc i) r"
    by (rule upd_conv_take_nth_drop)
  then show ?thesis by (simp add: finite_values_append)
next
  case False
  then have "r[i := NaN] = r" by (simp add: list_update_beyond)
  with False show ?thesis by simp
qed

lemma finite_values_fill_diagonal:
  "finite_values (concat (fill_diagonal m)) = finite_values (off_diagonal m)"
  by (simp add: finite_values_concat fill_diagonal_def off_diagonal_def comp_def
      finite_values_update_NaN)

lemma all_finite_Val: "all_finite (map Val xs) = Some xs"
  by (induction xs) auto

lemma finite_values_Val: "finite_values (map Val xs) = xs"
  by (induction xs) auto

lemma sort_replicate: "sort (replicate n (c::real)) = replicate n c"
  by (simp add: sorted_sort_id)

lemma median_replicate: "0 < n \<Longrightarrow> median (replicate n c) = c"
proof -
  assume n: "0 < n"
  then have a: "n div 2 < n" by simp
  have b: "n div 2 - 1 < n" using n by linarith
  show ?thesis using a b by (simp add: median_def sort_replicate Let_def)
qed

lemma find_pos_nth: "distinct cs \<Longrightarrow> j < length cs \<Longrightarrow> find_pos cs (cs ! j) = Some j"
proof (induction cs arbitrary: j)
  case Nil
  then show ?case by simp
next
  case (Cons c cs)
  show ?case
  proof (cases j)
    case 0
    then show ?thesis by simp
  next
    case (Suc i)
    with Cons.prems have "cs ! i \<in> set cs" "c \<notin> set cs" by auto
    then have "c \<noteq> cs ! i" by auto
    with Cons Suc show ?thesis by simp
  qed
qed

lemma positions_nth:
  "distinct cs \<Longrightarrow> \<forall>j \<in> set js. j < length cs \<Longrightarrow> positions cs (map ((!) cs) js) = Inr js"
  by (induction js) (auto simp: find_pos_nth)

lemma filter_by_position:
  "filter P cs = map ((!) cs) (filter (\<lambda>j. P (cs ! j)) [0..<length cs])"
proof (induction cs rule: rev_induct)
  case Nil
  then show ?case by simp
next
  case (snoc c cs)
  have a: "filter (\<lambda>j. P ((cs @ [c]) ! j)) [0..<length cs] = filter (\<lambda>j. P (cs ! j)) [0..<length cs]"
    by (rule filter_cong) (auto simp: nth_append)
  have b: "map ((!) (cs @ [c])) (filter (\<lambda>j. P (cs ! j)) [0..<length cs])
           = map ((!) cs) (filter (\<lambda>j. P (cs ! j)) [0..<length cs])"
    by (rule map_cong) (auto simp: nth_append)
  show ?case using snoc by (simp add: a b)
qed

lemma get_featurecols_positions:
  "get_featurecols df = map ((!) (columns df)) (feature_positions (columns df))"
  unfolding get_featurecols_def feature_positions_def
  by (rule filter_by_position)

lemma get_featuredata_rows:
  assumes "distinct (columns df)"
  shows "get_featuredata df =
           Inr (df\<lparr>columns := get_featurecols df,
                    rows := map (\<lambda>r. map ((!) r) (feature_positions (columns df))) (rows df)\<rparr>)"
proof -
  have "positions (columns df) (get_featurecols df) = Inr (feature_positions (columns df))"
    unfolding get_featurecols_positions
    by (rule positions_nth [OF assms]) (simp add: feature_positions_def)
  then show ?thesis by (simp add: get_featuredata_def select_columns_def)
qed

lemma float_rows_numeric:
  assumes "list_all (\<lambda>r. list_all (\<lambda>j. cell_float (r ! j) \<noteq> None) js) rs"
  shows "float_rows e (map (\<lambda>r. map ((!) r) js) rs)
         = Inr (map (\<lambda>r. map (\<lambda>j. the (cell_float (r ! j))) js) rs)"
  using assms by (simp add: float_rows_def list_all_iff comp_def)

lemma replicate_statistic_numeric:
  assumes "distinct (columns g)" and "numeric_features g"
  shows "replicate_statistic np_corrcoef g =
           Inr (if length (rows g) = 1 then NaN
                else nanmedian (fill_diagonal (np_corrcoef (feature_vectors g (rows g)))))"
  using assms(2)
  by (simp add: replicate_statistic_def get_featuredata_rows [OF assms(1)] numeric_features_def
      float_rows_numeric feature_vectors_def Let_def)

lemma collect_map:
  "\<forall>x \<in> set xs. f x = Inr (g x) \<Longrightarrow> collect (map f xs) = Inr (map g xs)"
  by (induction xs) auto

lemma nanmedian_fill_diagonal: "nanmedian (fill_diagonal m) = nanmedian [off_diagonal m]"
  by (simp add: nanmedian_def finite_values_fill_diagonal)

lemma finite_values_all_Val:
  "\<forall>y \<in> set ys. y = Val c \<Longrightarrow> finite_values ys = replicate (length ys) c"
  by (induction ys) auto

lemma off_diagonal_nonempty:
  assumes "2 \<le> length m" and "length (m ! 0) = length m"
  shows "off_diagonal m \<noteq> []"
proof -
  have "0 < length m" using assms(1) by linarith
  then have "0 \<in> set [0..<length m]" by simp
  moreover have "take 0 (m ! 0) @ drop (Suc 0) (m ! 0) \<noteq> []"
    using assms by simp
  ultimately show ?thesis
    unfolding off_diagonal_def concat_eq_Nil_conv by (metis (no_types, lifting) image_eqI list.set_map)
qed

lemma constant_entries_statistic:
  assumes "2 \<le> length m" and "length (m ! 0) = length m"
    and "\<forall>y \<in> set (off_diagonal m). y = Val c"
  shows "nanmedian [off_diagonal m] = Val c"
proof -
  have fv: "finite_values (off_diagonal m) = replicate (length (off_diagonal m)) c"
    using assms(3) by (rule finite_values_all_Val)
  have ne: "off_diagonal m \<noteq> []"
    using assms(1,2) by (rule off_diagonal_nonempty)
  then have pos: "0 < length (off_diagonal m)" by simp
  show ?thesis
    using ne pos by (simp add: nanmedian_def fv median_replicate)
qed

lemma groupby_found:
  "col_pos df name = Some j \<Longrightarrow>
   groupby df name =
     Inr (map (\<lambda>k. (k, keep_rows (\<lambda>r. r ! j = k) df)) (group_keys (column_cells df j)))"
  by (simp add: groupby_def column_cells_def)

lemma numeric_features_keep_rows:
  "numeric_features df \<Longrightarrow> numeric_features (keep_rows P df)"
  by (simp add: numeric_features_def keep_rows_def list_all_iff)

lemma corr_between_replicates_numeric:
  assumes "distinct (columns df)" "col_pos df name = Some j" "numeric_features df"
  shows "corr_between_replicates np_corrcoef df name =
           Inr (map (\<lambda>k. group_statistic np_corrcoef (feature_vectors df (group_rows df j k)))
                  (group_keys (column_cells df j)))"
proof -
  have one: "replicate_statistic np_corrcoef (keep_rows (\<lambda>r. r ! j = k) df)
             = Inr (group_statistic np_corrcoef (feature_vectors df (group_rows df j k)))" for k
  proof -
    let ?g = "keep_rows (\<lambda>r. r ! j = k) df"
    have "distinct (columns ?g)" using assms(1) by (simp add: keep_rows_columns)
    moreover have "numeric_features ?g"
      using assms(3) by (rule numeric_features_keep_rows)
    ultimately have "replicate_statistic np_corrcoef ?g =
           Inr (if length (rows ?g) = 1 then NaN
                else nanmedian (fill_diagonal (np_corrcoef (feature_vectors ?g (rows ?g)))))"
      by (rule replicate_statistic_numeric)
    moreover have "feature_vectors ?g (rows ?g) = feature_vectors df (group_rows df j k)"
      by (simp add: feature_vectors_def keep_rows_def group_rows_def)
    moreover have "length (rows ?g) = length (feature_vectors df (group_rows df j k))"
      by (simp add: feature_vectors_def keep_rows_def group_rows_def)
    ultimately show ?thesis
      by (simp add: group_statistic_def nanmedian_fill_diagonal)
  qed
  show ?thesis
    unfolding corr_between_replicates_def groupby_found [OF assms(2)]
    by (simp add: comp_def one collect_map)
qed

text \<open>
  C6, as amended. On a table with distinct column labels, the grouping column and
  numeric feature cells, and for every function in the place of \<^verbatim>\<open>np.corrcoef\<close>
  (the float64 routine in particular), \<^verbatim>\<open>corr_between_replicates\<close> returns one
  statistic per group (per value of the grouping column other than NaN, in sorted
  order): the statistic of a group of one row is NaN, and that of any other group is
  the median of the entries outside the diagonal of the matrix that
  \<^verbatim>\<open>np.corrcoef\<close> returns for its feature vectors, NaN entries ignored. When the
  matrix of a group of two or more rows is square and its entries outside the diagonal
  all have the same value, as they have for equal feature vectors, that value is the
  statistic: it is 1 exactly when \<^verbatim>\<open>np.corrcoef\<close> returns exactly 1.
\<close>

theorem corr_between_replicates_statistics:
  assumes "distinct (columns df)" "col_pos df name = Some j" "numeric_features df"
  shows "\<exists>out. corr_between_replicates np_corrcoef df name = Inr out \<and>
     length out = length (group_keys (column_cells df j)) \<and>
     (\<forall>g < length out.
        (let vals = feature_vectors df (group_rows df j (group_keys (column_cells df j) ! g)) in
          (length vals = 1 \<longrightarrow> out ! g = NaN) \<and>
          (length vals \<noteq> 1 \<longrightarrow> out ! g = nanmedian [off_diagonal (np_corrcoef vals)]) \<and>
          (\<forall>c. 2 \<le> length vals \<and> length (np_corrcoef vals) = length vals \<and>
                length (np_corrcoef vals ! 0) = length vals \<and>
                (\<forall>y \<in> set (off_diagonal (np_corrcoef vals)). y = Val c)
             \<longrightarrow> out ! g = Val c)))"
proof -
  let ?keys = "group_keys (column_cells df j)"
  let ?out = "map (\<lambda>k. group_statistic np_corrcoef (feature_vectors df (group_rows df j k))) ?keys"
  have r: "corr_between_replicates np_corrcoef df name = Inr ?out"
    using assms by (rule corr_between_replicates_numeric)
  have "group_statistic np_corrcoef vals = Val c"
    if "2 \<le> length vals" "length (np_corrcoef vals) = length vals"
      "length (np_corrcoef vals ! 0) = length vals"
      "\<forall>y \<in> set (off_diagonal (np_corrcoef vals)). y = Val c"
    for vals c
  proof -
    have "nanmedian [off_diagonal (np_corrcoef vals)] = Val c"
      using that by (intro constant_entries_statistic) simp_all
    moreover have "length vals \<noteq> 1" using that(1) by linarith
    ultimately show ?thesis by (simp add: group_statistic_def)
  qed
  then have "\<forall>g < length ?out.
        (let vals = feature_vectors df (group_rows df j (?keys ! g)) in
          (length vals = 1 \<longrightarrow> ?out ! g = NaN) \<and>
          (length vals \<noteq> 1 \<longrightarrow> ?out ! g = nanmedian [off_diagonal (np_corrcoef vals)]) \<and>
          (\<forall>c. 2 \<le> length vals \<and> length (np_corrcoef vals) = length vals \<and>
                length (np_corrcoef vals ! 0) = length vals \<and>
                (\<forall>y \<in> set (off_diagonal (np_corrcoef vals)). y = Val c)
             \<longrightarrow> ?out ! g = Val c))"
    by (auto simp: Let_def group_statistic_def)
  with r show ?thesis by simp
qed

lemma replicates5_keys:
  "group_keys (column_cells replicates5 0) = [Str ''A'', Str ''B'', Str ''C'']"
  by (simp add: replicates5_def column_cells_def group_keys_def sort_cells_def isna_def)

lemma replicates5_positions: "feature_positions (columns replicates5) = [1, 2, 3]"
  by (simp add: replicates5_def feature_positions_def startswith_def upt_rec)

lemma pow2_powr: "pow2 e = 2 powr of_int e"
  by (simp add: pow2_def powr_real_of_int field_simps)

lemma pow2_pos: "0 < pow2 e"
  by (simp add: pow2_powr)

lemma pow2_add: "pow2 (a + b) = pow2 a * pow2 b"
  by (simp add: pow2_powr powr_add)

lemma pow2_mono: "a \<le> b \<Longrightarrow> pow2 a \<le> pow2 b"
  by (simp add: pow2_powr)

lemma binade_eq:
  assumes "pow2 e \<le> \<bar>x\<bar>" and "\<bar>x\<bar> < pow2 (e + 1)"
  shows "binade x = e"
proof -
  have pos: "0 < \<bar>x\<bar>"
    using assms(1) pow2_pos [of e] by linarith
  have "of_int e \<le> log 2 \<bar>x\<bar>"
    using assms(1) pos by (simp add: pow2_powr le_log_iff)
  moreover have "log 2 \<bar>x\<bar> < of_int (e + 1)"
    using assms(2) pos by (simp add: pow2_powr log_less_iff)
  ultimately show ?thesis
    unfolding binade_def by (intro floor_unique) simp_all
qed

lemma round_even_near:
  assumes "of_int k - 1 / 2 < y" and "y < of_int k + 1 / 2"
  shows "round_even y = k"
proof -
  have "\<lfloor>y\<rfloor> = k \<or> \<lfloor>y\<rfloor> = k - 1"
    using assms by linarith
  then show ?thesis
  proof
    assume f: "\<lfloor>y\<rfloor> = k"
    then have "y - of_int k < 1 / 2" using assms by simp
    with f show ?thesis by (simp add: round_even_def)
  next
    assume f: "\<lfloor>y\<rfloor> = k - 1"
    then have "1 / 2 < y - of_int (k - 1)" using assms by simp
    with f show ?thesis by (simp add: round_even_def Let_def)
  qed
qed

lemma rounded_magnitude:
  assumes "\<bar>x\<bar> < pow2 (e + 1)"
    and "of_int k - 1 / 2 < x / pow2 (e - 52)" and "x / pow2 (e - 52) < of_int k + 1 / 2"
  shows "\<bar>of_int k * pow2 (e - 52)\<bar> \<le> pow2 (e + 1)"
proof -
  let ?s = "pow2 (e - 52)"
  have s: "0 < ?s" by (rule pow2_pos)
  have "pow2 (53 + (e - 52)) = pow2 53 * ?s" by (rule pow2_add)
  moreover have "53 + (e - 52) = e + 1" by simp
  moreover have "pow2 53 = 2 ^ 53" by (simp add: pow2_def)
  ultimately have p: "pow2 (e + 1) = 2 ^ 53 * ?s" by simp
  have "\<bar>x\<bar> < 2 ^ 53 * ?s" using assms(1) unfolding p .
  then have "\<bar>x\<bar> / ?s < 2 ^ 53" using s by (simp add: field_simps)
  then have "\<bar>x / ?s\<bar> < 2 ^ 53" using s by simp
  then have "\<bar>of_int k :: real\<bar> < 2 ^ 53 + 1 / 2"
    using assms(2,3) by linarith
  then have "\<bar>of_int k :: real\<bar> < of_int (2 ^ 53 + 1)" by simp
  then have "\<bar>k\<bar> < 2 ^ 53 + 1" by (metis of_int_abs of_int_less_iff)
  then have "\<bar>k\<bar> \<le> 2 ^ 53" by simp
  then have "of_int \<bar>k\<bar> \<le> (of_int (2 ^ 53) :: real)" by (simp only: of_int_le_iff)
  then have "\<bar>of_int k :: real\<bar> \<le> 2 ^ 53" by simp
  then have "\<bar>of_int k :: real\<bar> * ?s \<le> 2 ^ 53 * ?s"
    using s by (intro mult_right_mono) simp_all
  then have "\<bar>of_int k * ?s\<bar> \<le> 2 ^ 53 * ?s"
    using s by (simp add: abs_mult)
  then show ?thesis unfolding p .
qed

lemma round64_value:
  assumes "pow2 e \<le> \<bar>x\<bar>" and "\<bar>x\<bar> < pow2 (e + 1)" and "- 1022 \<le> e" and "e \<le> 1022"
    and "of_int k - 1 / 2 < x / pow2 (e - 52)" and "x / pow2 (e - 52) < of_int k + 1 / 2"
  shows "round64 x = Finite (of_int k * pow2 (e - 52))"
proof -
  have b: "binade x = e" using assms(1,2) by (rule binade_eq)
  have sp: "spacing x = pow2 (e - 52)" using assms(3) by (simp add: spacing_def b)
  have x0: "x \<noteq> 0" using assms(1) pow2_pos [of e] by auto
  have re: "round_even (x / pow2 (e - 52)) = k"
    using assms(5,6) by (rule round_even_near)
  have "\<bar>of_int k * pow2 (e - 52)\<bar> \<le> pow2 (e + 1)"
    using assms(2,5,6) by (rule rounded_magnitude)
  also have "\<dots> \<le> pow2 1023" using assms(4) by (intro pow2_mono) simp
  also have "\<dots> < 2 ^ 1024" by (simp add: pow2_def)
  finally have "\<not> 2 ^ 1024 \<le> \<bar>of_int k * pow2 (e - 52)\<bar>" by simp
  then show ?thesis
    by (simp add: round64_def x0 sp re Let_def)
qed

lemma round64_overflow:
  assumes "pow2 e \<le> \<bar>x\<bar>" and "\<bar>x\<bar> < pow2 (e + 1)" and "1024 \<le> e"
    and "of_int k - 1 / 2 < x / pow2 (e - 52)" and "x / pow2 (e - 52) < of_int k + 1 / 2"
    and "2 ^ 52 \<le> \<bar>k\<bar>"
  shows "round64 x = Infinity (x < 0)"
proof -
  have b: "binade x = e" using assms(1,2) by (rule binade_eq)
  have sp: "spacing x = pow2 (e - 52)" using assms(3) by (simp add: spacing_def b)
  have x0: "x \<noteq> 0" using assms(1) pow2_pos [of e] by auto
  have re: "round_even (x / pow2 (e - 52)) = k"
    using assms(4,5) by (rule round_even_near)
  have s: "0 < pow2 (e - 52)" by (rule pow2_pos)
  have "(of_int (2 ^ 52) :: real) \<le> of_int \<bar>k\<bar>"
    using assms(6) by (simp only: of_int_le_iff)
  then have "(2::real) ^ 52 \<le> \<bar>of_int k\<bar>" by simp
  then have m: "2 ^ 52 * pow2 (e - 52) \<le> \<bar>of_int k :: real\<bar> * pow2 (e - 52)"
    using s by (intro mult_right_mono) simp_all
  have "pow2 (52 + (e - 52)) = pow2 52 * pow2 (e - 52)" by (rule pow2_add)
  moreover have "52 + (e - 52) = e" by simp
  moreover have "pow2 52 = 2 ^ 52" by (simp add: pow2_def)
  ultimately have q: "pow2 e = 2 ^ 52 * pow2 (e - 52)" by simp
  have "(2::real) ^ 1024 = pow2 1024" by (simp add: pow2_def)
  also have "\<dots> \<le> pow2 e" using assms(3) by (rule pow2_mono)
  also have "\<dots> = 2 ^ 52 * pow2 (e - 52)" by (rule q)
  also have "\<dots> \<le> \<bar>of_int k :: real\<bar> * pow2 (e - 52)" by (rule m)
  also have "\<dots> = \<bar>of_int k * pow2 (e - 52)\<bar>" using s by (simp add: abs_mult)
  finally have "2 ^ 1024 \<le> \<bar>of_int k * pow2 (e - 52)\<bar>" .
  then show ?thesis
    by (simp add: round64_def x0 sp re Let_def)
qed

lemma round64_0: "round64 0 = Finite 0" by (simp add: round64_def)

lemma round64_1: "round64 1 = Finite 1"
  using round64_value [of 0 1 "2 ^ 52"] by (simp add: pow2_def)

lemma round64_m1: "round64 (- 1) = Finite (- 1)"
  using round64_value [of 0 "- 1" "- (2 ^ 52)"] by (simp add: pow2_def)

lemma round64_2: "round64 2 = Finite 2"
  using round64_value [of 1 2 "2 ^ 52"] by (simp add: pow2_def)

lemma round64_4: "round64 4 = Finite 4"
  using round64_value [of 2 4 "2 ^ 52"] by (simp add: pow2_def)

lemma round64_5: "round64 5 = Finite 5"
  using round64_value [of 2 5 "5 * 2 ^ 50"] by (simp add: pow2_def)

lemma round64_9: "round64 9 = Finite 9"
  using round64_value [of 3 9 "9 * 2 ^ 49"] by (simp add: pow2_def)

lemma round64_15: "round64 15 = Finite 15"
  using round64_value [of 3 15 "15 * 2 ^ 49"] by (simp add: pow2_def)

lemma round64_half: "round64 (1 / 2) = Finite (1 / 2)"
  using round64_value [of "- 1" "1 / 2" "2 ^ 52"] by (simp add: pow2_def)

lemma round64_sqrt2: "round64 (sqrt 2) = Finite sqrt2_64"
proof -
  have lo: "(6369051672525773 - 1 / 2) / 2 ^ 52 < sqrt 2"
    by (rule real_less_rsqrt) (simp add: power2_eq_square)
  have hi: "sqrt 2 < (6369051672525773 + 1 / 2) / 2 ^ 52"
    by (rule real_less_lsqrt) (simp_all add: power2_eq_square)
  have one: "1 \<le> sqrt 2" by simp
  have two: "sqrt 2 < 2"
    by (rule real_less_lsqrt) simp_all
  have "round64 (sqrt 2) = Finite (of_int 6369051672525773 * pow2 (0 - 52))"
    using lo hi one two by (intro round64_value) (simp_all add: pow2_def field_simps)
  then show ?thesis by (simp add: pow2_def sqrt2_64_def)
qed

lemma round64_quotient: "round64 (2 / sqrt2_64) = Finite quotient_64"
proof -
  have "round64 (2 / sqrt2_64) = Finite (of_int 6369051672525772 * pow2 (0 - 52))"
    unfolding sqrt2_64_def
    by (intro round64_value) (simp_all add: pow2_def field_simps)
  then show ?thesis by (simp add: pow2_def quotient_64_def)
qed

lemma round64_below_one: "round64 (quotient_64 / sqrt2_64) = Finite below_one"
proof -
  have "round64 (quotient_64 / sqrt2_64) = Finite (of_int (2 ^ 53 - 1) * pow2 (- 1 - 52))"
    unfolding sqrt2_64_def quotient_64_def
    by (intro round64_value) (simp_all add: pow2_def field_simps)
  then show ?thesis by (simp add: pow2_def below_one_def field_simps)
qed

lemma round64_big: "round64 big = Finite big"
proof -
  have "round64 big = Finite (of_int (2 ^ 52) * pow2 (700 - 52))"
    unfolding big_def
    by (intro round64_value) (simp_all add: pow2_def)
  then show ?thesis by (simp add: pow2_def big_def)
qed

lemma round64_half_big: "round64 half_big = Finite half_big"
proof -
  have "round64 half_big = Finite (of_int (2 ^ 52) * pow2 (699 - 52))"
    unfolding half_big_def
    by (intro round64_value) (simp_all add: pow2_def)
  then show ?thesis by (simp add: pow2_def half_big_def)
qed

lemma round64_minus_half_big: "round64 (- half_big) = Finite (- half_big)"
proof -
  have "round64 (- half_big) = Finite (of_int (- (2 ^ 52)) * pow2 (699 - 52))"
    unfolding half_big_def
    by (intro round64_value) (simp_all add: pow2_def)
  then show ?thesis by (simp add: pow2_def half_big_def)
qed

lemma round64_square_overflows: "round64 (half_big * half_big) = Infinity False"
proof -
  have "round64 (half_big * half_big) = Infinity (half_big * half_big < 0)"
    unfolding half_big_def
    by (rule round64_overflow [of 1398 _ "2 ^ 52"]) (simp_all add: pow2_def)
  then show ?thesis by (simp add: half_big_def)
qed

lemma big_halves: "big / 2 = half_big" "big - half_big = half_big"
  by (simp_all add: big_def half_big_def)

lemma corr_entry64_456:
  "corr_entry64 [Finite 4, Finite 5, Finite 6] [Finite 4, Finite 5, Finite 6] = Val 1"
  by (simp add: corr_entry64_def cov_entry64_def scale64_def dot64_def centered64_def mean64_def
      sum64_def round64_0 round64_1 round64_m1 round64_2 round64_4 round64_5 round64_9 round64_15
      round64_half clip_def)

lemma corr_entry64_02:
  "corr_entry64 [Finite 0, Finite 2] [Finite 0, Finite 2] = Val below_one"
proof -
  have c: "clip (- 1) 1 below_one = below_one"
    by (simp add: clip_def below_one_def)
  have z: "sqrt2_64 \<noteq> 0" "\<not> sqrt2_64 < 0" by (simp_all add: sqrt2_64_def)
  show ?thesis
    by (simp add: corr_entry64_def cov_entry64_def scale64_def dot64_def centered64_def mean64_def
        sum64_def round64_0 round64_1 round64_m1 round64_2 round64_sqrt2 round64_quotient
        round64_below_one c z)
qed

lemma corr_entry64_big:
  "corr_entry64 [Finite 0, Finite big] [Finite 0, Finite big] = NaN"
  by (simp add: corr_entry64_def cov_entry64_def scale64_def dot64_def centered64_def mean64_def
      sum64_def round64_0 round64_1 round64_big round64_half_big round64_minus_half_big
      round64_square_overflows big_halves)

lemma corrcoef64_pair:
  "corrcoef64 [a, a] =
     [[corr_entry64 (map to64 a) (map to64 a), corr_entry64 (map to64 a) (map to64 a)],
      [corr_entry64 (map to64 a) (map to64 a), corr_entry64 (map to64 a) (map to64 a)]]"
  by (simp add: corrcoef64_def)

text \<open>
  C6, witness: the table \<open>replicates5\<close> with the binary64 routine. The group
  \<^verbatim>\<open>A\<close> has one row; the group \<^verbatim>\<open>B\<close> has two equal rows \<open>(4, 5, 6)\<close>,
  whose variance is 1, and there the routine returns exactly 1.
\<close>

theorem corr_between_replicates_statistics_witness:
  "distinct (columns replicates5) \<and>
   col_pos replicates5 ''Metadata_pert_iname'' = Some 0 \<and>
   numeric_features replicates5 \<and>
   feature_vectors replicates5 (group_rows replicates5 0 (Str ''B''))
     = [[Val 4, Val 5, Val 6], [Val 4, Val 5, Val 6]] \<and>
   off_diagonal (corrcoef64 [[Val 4, Val 5, Val 6], [Val 4, Val 5, Val 6]]) = [Val 1, Val 1] \<and>
   (\<exists>out. corr_between_replicates corrcoef64 replicates5 ''Metadata_pert_iname'' = Inr out \<and>
      length out = 3 \<and> out ! 0 = NaN \<and> out ! 1 = Val 1)"
proof -
  let ?B = "[[Val 4, Val 5, Val 6], [Val 4, Val 5, Val 6]]"
  have a: "distinct (columns replicates5)" by (simp add: replicates5_def)
  have b: "col_pos replicates5 ''Metadata_pert_iname'' = Some 0"
    by (simp add: col_pos_def replicates5_def)
  have c: "numeric_features replicates5"
    by (simp add: numeric_features_def replicates5_positions) (simp add: replicates5_def)
  have vA: "feature_vectors replicates5 (group_rows replicates5 0 (Str ''A''))
            = [[Val 5, Val 6, Val 7]]"
    by (simp add: feature_vectors_def replicates5_positions group_rows_def) (simp add: replicates5_def)
  have vB: "feature_vectors replicates5 (group_rows replicates5 0 (Str ''B'')) = ?B"
    by (simp add: feature_vectors_def replicates5_positions group_rows_def) (simp add: replicates5_def)
  have cc: "corrcoef64 ?B = [[Val 1, Val 1], [Val 1, Val 1]]"
    by (simp add: corrcoef64_pair corr_entry64_456)
  have od: "off_diagonal (corrcoef64 ?B) = [Val 1, Val 1]"
    by (simp add: cc off_diagonal_def upt_rec)
  from corr_between_replicates_statistics [OF a b c, of corrcoef64]
  obtain out where o: "corr_between_replicates corrcoef64 replicates5 ''Metadata_pert_iname'' = Inr out"
    "length out = length (group_keys (column_cells replicates5 0))"
    "\<forall>g < length out.
        (let vals = feature_vectors replicates5
                (group_rows replicates5 0 (group_keys (column_cells replicates5 0) ! g)) in
          (length vals = 1 \<longrightarrow> out ! g = NaN) \<and>
          (length vals \<noteq> 1 \<longrightarrow> out ! g = nanmedian [off_diagonal (corrcoef64 vals)]) \<and>
          (\<forall>c. 2 \<le> length vals \<and> length (corrcoef64 vals) = length vals \<and>
                length (corrcoef64 vals ! 0) = length vals \<and>
                (\<forall>y \<in> set (off_diagonal (corrcoef64 vals)). y = Val c)
             \<longrightarrow> out ! g = Val c))"
    by blast
  have l: "length out = 3" using o(2) by (simp add: replicates5_keys)
  have k0: "group_keys (column_cells replicates5 0) ! 0 = Str ''A''"
    and k1: "group_keys (column_cells replicates5 0) ! 1 = Str ''B''"
    by (simp_all add: replicates5_keys)
  have "0 < length out" using l by simp
  from o(3) [rule_format, OF this] have o0: "out ! 0 = NaN"
    unfolding Let_def k0 vA by simp
  have "1 < length out" using l by simp
  from o(3) [rule_format, OF this]
  have "\<forall>c. 2 \<le> length ?B \<and> length (corrcoef64 ?B) = length ?B \<and>
             length (corrcoef64 ?B ! 0) = length ?B \<and>
             (\<forall>y \<in> set (off_diagonal (corrcoef64 ?B)). y = Val c)
          \<longrightarrow> out ! 1 = Val c"
    unfolding Let_def k1 vB by (elim conjE)
  then have "2 \<le> length ?B \<and> length (corrcoef64 ?B) = length ?B \<and>
             length (corrcoef64 ?B ! 0) = length ?B \<and>
             (\<forall>y \<in> set (off_diagonal (corrcoef64 ?B)). y = Val 1)
          \<longrightarrow> out ! 1 = Val 1"
    by (rule spec)
  moreover have "2 \<le> length ?B \<and> length (corrcoef64 ?B) = length ?B \<and>
             length (corrcoef64 ?B ! 0) = length ?B \<and>
             (\<forall>y \<in> set (off_diagonal (corrcoef64 ?B)). y = Val 1)"
    unfolding od by (simp add: cc)
  ultimately have o1: "out ! 1 = Val 1" by (rule mp)
  from a b c vB od o(1) l o0 o1 show ?thesis by blast
qed

lemma twin_group:
  assumes "columns df = [''Metadata_pert_iname'', ''Cells_a'', ''Cells_b'']"
    and "index df = [0, 1]"
    and "rows df = [[Str ''A'', Num (Val x), Num (Val y)], [Str ''A'', Num (Val x), Num (Val y)]]"
  shows "corr_between_replicates np_corrcoef df ''Metadata_pert_iname'' =
           Inr [nanmedian (fill_diagonal (np_corrcoef [[Val x, Val y], [Val x, Val y]]))]"
proof -
  have d: "df = \<lparr>columns = [''Metadata_pert_iname'', ''Cells_a'', ''Cells_b''], index = [0, 1],
      rows = [[Str ''A'', Num (Val x), Num (Val y)], [Str ''A'', Num (Val x), Num (Val y)]]\<rparr>"
    using assms by (intro dataframe.equality) simp_all
  have g: "groupby df ''Metadata_pert_iname'' = Inr [(Str ''A'', df)]"
    unfolding d
    by (simp add: groupby_def col_pos_def group_keys_def sort_cells_def isna_def keep_rows_def)
  have f: "get_featuredata df =
      Inr \<lparr>columns = [''Cells_a'', ''Cells_b''], index = [0, 1],
           rows = [[Num (Val x), Num (Val y)], [Num (Val x), Num (Val y)]]\<rparr>"
    unfolding d
    by (simp add: get_featuredata_def get_featurecols_def select_columns_def startswith_def)
  have "replicate_statistic np_corrcoef df =
          Inr (nanmedian (fill_diagonal (np_corrcoef [[Val x, Val y], [Val x, Val y]])))"
    by (simp add: replicate_statistic_def f float_rows_def Let_def)
  then show ?thesis
    by (simp add: corr_between_replicates_def g)
qed

text \<open>
  C6, counterexample to the claim as stated. The two rows of \<open>twins02\<close> are equal
  and not constant, \<open>(0, 2)\<close>. The variance of a row is 2; \<^verbatim>\<open>np.corrcoef\<close>
  divides 2 by the binary64 square root of 2 twice, and the result is the binary64
  number just below 1, \<open>1 - 2^(-53)\<close>; the median of the two entries outside the
  diagonal is that number (their sum and its half are exact), and it is the statistic
  of the group, not 1. The two rows of \<open>twins_big\<close> are \<open>(0, 2^700)\<close>: the squares
  of the centred values overflow, the variance is the infinity, the quotient of the
  infinite covariance by it is NaN, and the statistic of the group is NaN.
\<close>

theorem corr_between_replicates_binary64_below_one:
  "feature_vectors twins02 (group_rows twins02 0 (Str ''A'')) = [[Val 0, Val 2], [Val 0, Val 2]] \<and>
   corrcoef64 [[Val 0, Val 2], [Val 0, Val 2]]
     = [[Val below_one, Val below_one], [Val below_one, Val below_one]] \<and>
   corr_between_replicates corrcoef64 twins02 ''Metadata_pert_iname'' = Inr [Val below_one] \<and>
   below_one = 1 - 1 / 2 ^ 53 \<and> below_one \<noteq> 1 \<and>
   corr_between_replicates corrcoef64 twins_big ''Metadata_pert_iname'' = Inr [NaN]"
proof -
  have fv: "feature_vectors twins02 (group_rows twins02 0 (Str ''A''))
            = [[Val 0, Val 2], [Val 0, Val 2]]"
    by (simp add: feature_vectors_def feature_positions_def group_rows_def twins02_def
        startswith_def upt_rec)
  have cc: "corrcoef64 [[Val 0, Val 2], [Val 0, Val 2]]
     = [[Val below_one, Val below_one], [Val below_one, Val below_one]]"
    by (simp add: corrcoef64_pair corr_entry64_02)
  have "corr_between_replicates corrcoef64 twins02 ''Metadata_pert_iname'' =
          Inr [nanmedian (fill_diagonal (corrcoef64 [[Val 0, Val 2], [Val 0, Val 2]]))]"
    by (rule twin_group) (simp_all add: twins02_def)
  then have a: "corr_between_replicates corrcoef64 twins02 ''Metadata_pert_iname''
           = Inr [Val below_one]"
    unfolding cc by (simp add: fill_diagonal_def nanmedian_def median_def upt_rec)
  have cb: "corrcoef64 [[Val 0, Val big], [Val 0, Val big]] = [[NaN, NaN], [NaN, NaN]]"
    by (simp add: corrcoef64_pair corr_entry64_big)
  have "corr_between_replicates corrcoef64 twins_big ''Metadata_pert_iname'' =
          Inr [nanmedian (fill_diagonal (corrcoef64 [[Val 0, Val big], [Val 0, Val big]]))]"
    by (rule twin_group) (simp_all add: twins_big_def)
  then have b: "corr_between_replicates corrcoef64 twins_big ''Metadata_pert_iname'' = Inr [NaN]"
    unfolding cb by (simp add: fill_diagonal_def nanmedian_def upt_rec)
  from fv cc a b show ?thesis by (simp add: below_one_def)
qed

section \<open>The single-modality null distribution\<close>

lemma choices_range:
  "list_all (\<lambda>i. i < n) d \<Longrightarrow> choices [0..<n] d = Inr d"
proof -
  assume a: "list_all (\<lambda>i. i < n) d"
  then have "map ((!) [0..<n]) d = d"
    by (induction d) auto
  with a show ?thesis by (simp add: choices_def)
qed

lemma find_pos_upt: "i < n \<Longrightarrow> find_pos [0..<n] i = Some i"
  using find_pos_nth [of "[0..<n]" i] by simp

lemma those_map_Some:
  "\<forall>x \<in> set xs. f x = Some (g x) \<Longrightarrow> those (map f xs) = Some (map g xs)"
  by (induction xs) auto

lemma loc_rows_reset:
  assumes "list_all (\<lambda>i. i < length (rows df)) d"
  shows "loc_rows (reset_index df) d = Inr (df\<lparr>index := d, rows := map ((!) (rows df)) d\<rparr>)"
proof -
  have "those (map (find_pos [0..<length (rows df)]) d) = Some (map (\<lambda>i. i) d)"
    using assms by (intro those_map_Some) (auto simp: list_all_iff find_pos_upt)
  then show ?thesis by (simp add: loc_rows_def reset_index_def)
qed

lemma distinct_picks:
  fixes col :: "'a list"
  assumes "distinct col" and "list_all (\<lambda>i. i < length col) d"
  shows "(length (remdups (map ((!) col) d)) = length d) = distinct d"
proof -
  have "inj_on ((!) col) (set d)"
    using assms by (auto simp: inj_on_def list_all_iff nth_eq_iff_index_eq)
  then have "distinct (map ((!) col) d) = distinct d"
    by (simp add: distinct_map)
  moreover have "(length (remdups xs) = length xs) = distinct xs" for xs :: "'a list"
    by simp
  from this [of "map ((!) col) d"]
  have "(length (remdups (map ((!) col) d)) = length d) = distinct (map ((!) col) d)"
    by (simp only: length_map)
  ultimately show ?thesis by simp
qed

lemma non_replicate_draw_distinct_ids:
  assumes cols: "distinct (columns df)"
    and key: "col_pos df name = Some j"
    and ids: "distinct (column_cells df j)"
    and num: "numeric_features df"
    and k: "2 \<le> k"
    and d: "valid_draw df k d"
  shows "non_replicate_draw (reset_index df) k name d =
           (if distinct d
            then Inr (Some (nanmedian (fill_diagonal (corrcoef
                   (feature_vectors df (map ((!) (rows df)) d))))))
            else Inr None)"
proof -
  let ?n = "length (rows df)"
  let ?sample = "df\<lparr>index := d, rows := map ((!) (rows df)) d\<rparr>"
  have r: "list_all (\<lambda>i. i < ?n) d" and ld: "int (length d) = k"
    using d by (simp_all add: valid_draw_def)
  have c: "choices [0..<length (rows (reset_index df))] d = Inr d"
    using r by (simp add: reset_index_def choices_range)
  have l: "loc_rows (reset_index df) d = Inr ?sample"
    using r by (rule loc_rows_reset)
  have g: "get_column ?sample name = Inr (map ((!) (column_cells df j)) d)"
    using key r by (simp add: get_column_def col_pos_def column_cells_def list_all_iff)
  have "(length (remdups (map ((!) (column_cells df j)) d)) = length d) = distinct d"
    using r by (intro distinct_picks [OF ids]) (simp add: column_cells_def)
  then have u: "(int (length (remdups (map ((!) (column_cells df j)) d))) = k) = distinct d"
    unfolding ld [symmetric] by simp
  have cs: "distinct (columns ?sample)" using cols by simp
  have ns: "numeric_features ?sample"
    using num r by (simp add: numeric_features_def list_all_iff)
  have f: "get_featuredata ?sample =
           Inr (?sample\<lparr>columns := get_featurecols ?sample,
                  rows := map (\<lambda>r. map ((!) r) (feature_positions (columns ?sample))) (rows ?sample)\<rparr>)"
    using cs by (rule get_featuredata_rows)
  have fl: "float_rows TypeError (map (\<lambda>r. map ((!) r) (feature_positions (columns df)))
              (map ((!) (rows df)) d))
            = Inr (feature_vectors df (map ((!) (rows df)) d))"
    unfolding feature_vectors_def
    using ns by (intro float_rows_numeric) (simp add: numeric_features_def)
  have len: "length (feature_vectors df (map ((!) (rows df)) d)) \<noteq> 1"
    using k ld by (simp add: feature_vectors_def)
  have fl': "float_rows TypeError
               (map ((\<lambda>r. map ((!) r) (feature_positions (columns df))) \<circ> (!) (rows df)) d)
             = Inr (feature_vectors df (map ((!) (rows df)) d))"
    using fl by simp
  show ?thesis
    using u len by (simp add: non_replicate_draw_def c l g f fl' Let_def)
qed

lemma non_replicates_loop_length:
  "non_replicates_loop df n k name tape acc = Some (Inr out) \<Longrightarrow> int (length acc) \<le> n
   \<Longrightarrow> int (length out) = n"
proof (induction tape arbitrary: acc)
  case Nil
  then show ?case by (simp split: if_splits)
next
  case (Cons d tape)
  show ?case
  proof (cases "int (length acc) < n")
    case False
    with Cons.prems show ?thesis by simp
  next
    case True
    show ?thesis
    proof (cases "non_replicate_draw df k name d")
      case (Inl e)
      with Cons.prems True show ?thesis by simp
    next
      case (Inr r)
      show ?thesis
      proof (cases r)
        case None
        with Inr True Cons.prems Cons.IH [of acc] show ?thesis by simp
      next
        case (Some v)
        with Inr True Cons.prems Cons.IH [of "acc @ [v]"] show ?thesis by simp
      qed
    qed
  qed
qed

lemma non_replicates_loop_returns:
  assumes "\<forall>d \<in> set tape. \<exists>r. non_replicate_draw df k name d = Inr r"
    and "n - int (length acc)
         \<le> int (length (filter (\<lambda>d. non_replicate_draw df k name d \<noteq> Inr None) tape))"
  shows "\<exists>out. non_replicates_loop df n k name tape acc = Some (Inr out)"
  using assms
proof (induction tape arbitrary: acc)
  case Nil
  then show ?case by simp
next
  case (Cons d tape)
  show ?case
  proof (cases "int (length acc) < n")
    case False
    then show ?thesis by simp
  next
    case True
    from Cons.prems(1) obtain r where r: "non_replicate_draw df k name d = Inr r" by auto
    show ?thesis
    proof (cases r)
      case None
      with r Cons.prems have
        "n - int (length acc)
         \<le> int (length (filter (\<lambda>d. non_replicate_draw df k name d \<noteq> Inr None) tape))"
        by simp
      with Cons.IH [of acc] Cons.prems(1) have
        "\<exists>out. non_replicates_loop df n k name tape acc = Some (Inr out)" by simp
      with True r None show ?thesis by simp
    next
      case (Some v)
      with r Cons.prems have
        "n - int (length (acc @ [v]))
         \<le> int (length (filter (\<lambda>d. non_replicate_draw df k name d \<noteq> Inr None) tape))"
        by simp
      with Cons.IH [of "acc @ [v]"] Cons.prems(1) have
        "\<exists>out. non_replicates_loop df n k name tape (acc @ [v]) = Some (Inr out)" by simp
      with True r Some show ?thesis by simp
    qed
  qed
qed


lemma non_replicates_loop_all_rejected:
  assumes "\<forall>d \<in> set tape. non_replicate_draw df k name d = Inr None"
    and "int (length acc) < n"
  shows "non_replicates_loop df n k name tape acc = None"
  using assms by (induction tape) auto

lemma draw_repeats_a_row:
  assumes "list_all (\<lambda>i. i < m) d" and "m < length d"
  shows "\<not> distinct d"
proof
  assume "distinct d"
  then have "card (set d) = length d" by (rule distinct_card)
  moreover have "set d \<subseteq> {..<m}" using assms(1) by (auto simp: list_all_iff)
  then have "card (set d) \<le> card {..<m}" by (intro card_mono) simp_all
  ultimately show False using assms(2) by simp
qed

lemma non_replicates_loop_nothing_asked:
  "n \<le> 0 \<Longrightarrow> non_replicates_loop df n k name tape [] = Some (Inr [])"
  by (cases tape) simp_all

lemma choices_empty_population: "d \<noteq> [] \<Longrightarrow> choices [] d = Inl IndexError"
  by (cases d) (simp_all add: choices_def)

lemma valid_zero_draws:
  assumes "rows df \<noteq> []" and "0 \<le> k"
  shows "list_all (valid_draw df k) (replicate m (replicate (nat k) 0))"
  using assms by (simp add: list_all_iff valid_draw_def)

text \<open>
  C2, as amended. The table has distinct column labels, an identity column whose cells
  are pairwise distinct, and numeric feature cells; two or more rows are drawn per
  round and \<open>n \<ge> 0\<close> samples are asked for. Then a draw of row positions of the
  table is accepted exactly when the positions are pairwise distinct (a draw that
  repeats a row is rejected and the loop draws again); whenever the sampler returns a
  list, on any tape, the list has exactly \<open>n\<close> entries; the sampler returns as soon
  as the random source yields \<open>n\<close> draws of pairwise distinct rows; for \<open>n = 0\<close>
  it returns the empty list without drawing. For \<open>n \<ge> 1\<close>: on a table without
  rows the first draw raises \<^verbatim>\<open>IndexError\<close>; on a table that has a row but fewer
  rows than are drawn per round, no draw is ever accepted, so the loop is still
  running at the end of every tape, and there are such tapes of every length.
\<close>

theorem corr_between_non_replicates_distinct_ids:
  assumes cols: "distinct (columns df)"
    and key: "col_pos df name = Some j"
    and ids: "distinct (column_cells df j)"
    and num: "numeric_features df"
    and k: "2 \<le> k"
    and n: "0 \<le> n"
  shows "(\<forall>d. valid_draw df k d \<longrightarrow>
            (\<exists>v. non_replicate_draw (reset_index df) k name d = Inr (Some v)) = distinct d) \<and>
         (\<forall>tape out. corr_between_non_replicates df n k name tape = Some (Inr out)
            \<longrightarrow> int (length out) = n) \<and>
         (\<forall>tape. list_all (valid_draw df k) tape \<and> n \<le> int (length (filter distinct tape))
            \<longrightarrow> (\<exists>out. corr_between_non_replicates df n k name tape = Some (Inr out))) \<and>
         (n = 0 \<longrightarrow> (\<forall>tape. corr_between_non_replicates df n k name tape = Some (Inr []))) \<and>
         (0 < n \<and> rows df = [] \<longrightarrow>
            (\<forall>d tape. int (length d) = k \<longrightarrow>
               corr_between_non_replicates df n k name (d # tape) = Some (Inl IndexError))) \<and>
         (0 < n \<and> rows df \<noteq> [] \<and> int (length (rows df)) < k \<longrightarrow>
            (\<forall>tape. list_all (valid_draw df k) tape \<longrightarrow>
               corr_between_non_replicates df n k name tape = None) \<and>
            (\<forall>m. list_all (valid_draw df k) (replicate m (replicate (nat k) 0))))"
proof -
  have draw: "non_replicate_draw (reset_index df) k name d =
           (if distinct d
            then Inr (Some (nanmedian (fill_diagonal (corrcoef
                   (feature_vectors df (map ((!) (rows df)) d))))))
            else Inr None)" if "valid_draw df k d" for d
    using that by (rule non_replicate_draw_distinct_ids [OF cols key ids num k])
  have a: "\<forall>d. valid_draw df k d \<longrightarrow>
            (\<exists>v. non_replicate_draw (reset_index df) k name d = Inr (Some v)) = distinct d"
    by (simp add: draw)
  have b: "\<forall>tape out. corr_between_non_replicates df n k name tape = Some (Inr out)
            \<longrightarrow> int (length out) = n"
    using n by (auto simp: corr_between_non_replicates_def dest: non_replicates_loop_length)
  have c: "\<exists>out. corr_between_non_replicates df n k name tape = Some (Inr out)"
    if valid: "list_all (valid_draw df k) tape"
      and enough: "n \<le> int (length (filter distinct tape))" for tape
  proof -
    have dr: "non_replicate_draw (reset_index df) k name d =
           (if distinct d
            then Inr (Some (nanmedian (fill_diagonal (corrcoef
                   (feature_vectors df (map ((!) (rows df)) d))))))
            else Inr None)" if "d \<in> set tape" for d
      using that valid by (intro draw) (simp add: list_all_iff)
    have "filter (\<lambda>d. non_replicate_draw (reset_index df) k name d \<noteq> Inr None) tape
          = filter distinct tape"
      by (rule filter_cong) (simp_all add: dr)
    with enough have "n - int (length ([]::float64 list))
       \<le> int (length (filter (\<lambda>d. non_replicate_draw (reset_index df) k name d \<noteq> Inr None) tape))"
      by simp
    moreover have "\<forall>d \<in> set tape. \<exists>r. non_replicate_draw (reset_index df) k name d = Inr r"
      by (simp add: dr)
    ultimately show ?thesis
      unfolding corr_between_non_replicates_def by (rule non_replicates_loop_returns [rotated])
  qed
  have z: "corr_between_non_replicates df n k name tape = Some (Inr [])" if "n = 0" for tape
    using that by (simp add: corr_between_non_replicates_def non_replicates_loop_nothing_asked)
  have e: "corr_between_non_replicates df n k name (d # tape) = Some (Inl IndexError)"
    if pos: "0 < n" and none: "rows df = []" and len: "int (length d) = k" for d tape
  proof -
    have "d \<noteq> []" using len k by auto
    then have "non_replicate_draw (reset_index df) k name d = Inl IndexError"
      using none by (simp add: non_replicate_draw_def reset_index_def choices_empty_population)
    then show ?thesis
      using pos by (simp add: corr_between_non_replicates_def)
  qed
  have f: "corr_between_non_replicates df n k name tape = None"
    if pos: "0 < n" and few: "int (length (rows df)) < k"
      and valid: "list_all (valid_draw df k) tape" for tape
  proof -
    have "non_replicate_draw (reset_index df) k name d = Inr None" if "d \<in> set tape" for d
    proof -
      from that valid have v: "valid_draw df k d" by (simp add: list_all_iff)
      then have "int (length d) = k" "list_all (\<lambda>i. i < length (rows df)) d"
        by (simp_all add: valid_draw_def)
      with few have "\<not> distinct d" by (intro draw_repeats_a_row [of "length (rows df)"]) simp_all
      with draw [OF v] show ?thesis by simp
    qed
    then show ?thesis
      unfolding corr_between_non_replicates_def
      using pos by (intro non_replicates_loop_all_rejected) simp_all
  qed
  have g: "list_all (valid_draw df k) (replicate m (replicate (nat k) 0))"
    if "rows df \<noteq> []" for m
    using that k by (intro valid_zero_draws) simp_all
  from a b c z e f g show ?thesis by blast
qed

lemma ids2_positions: "feature_positions (columns ids2) = [1, 2, 3]"
  by (simp add: ids2_def feature_positions_def startswith_def upt_rec)

lemma ids2_hyps:
  "distinct (columns ids2)"
  "col_pos ids2 ''Metadata_broad_sample'' = Some 0"
  "distinct (column_cells ids2 0)"
  "numeric_features ids2"
  by (simp_all add: numeric_features_def ids2_positions column_cells_def col_pos_def)
     (simp_all add: ids2_def)

lemma ids0_hyps:
  "distinct (columns ids0)"
  "col_pos ids0 ''Metadata_broad_sample'' = Some 0"
  "distinct (column_cells ids0 0)"
  "numeric_features ids0"
  by (simp_all add: numeric_features_def column_cells_def col_pos_def ids0_def)

text \<open>
  C2, witness: the two-row table \<open>ids2\<close> with a tape of four draws of two rows, of
  which two repeat a row, and two samples asked for; the same table with no sample
  asked for; the same table with three rows drawn per round, more than it has; and the
  table \<open>ids0\<close>, which has the columns and no row.
\<close>

theorem corr_between_non_replicates_distinct_ids_witness:
  "distinct (columns ids2) \<and>
   col_pos ids2 ''Metadata_broad_sample'' = Some 0 \<and>
   distinct (column_cells ids2 0) \<and>
   numeric_features ids2 \<and>
   list_all (valid_draw ids2 2) [[0, 0], [0, 1], [1, 1], [1, 0]] \<and>
   non_replicate_draw (reset_index ids2) 2 ''Metadata_broad_sample'' [0, 0] = Inr None \<and>
   (\<exists>v. non_replicate_draw (reset_index ids2) 2 ''Metadata_broad_sample'' [0, 1] = Inr (Some v)) \<and>
   (\<exists>out. corr_between_non_replicates ids2 2 2 ''Metadata_broad_sample''
             [[0, 0], [0, 1], [1, 1], [1, 0]] = Some (Inr out) \<and> length out = 2) \<and>
   corr_between_non_replicates ids2 0 2 ''Metadata_broad_sample'' [[0, 1]] = Some (Inr []) \<and>
   list_all (valid_draw ids2 3) [[0, 1, 0], [1, 1, 0]] \<and>
   corr_between_non_replicates ids2 1 3 ''Metadata_broad_sample'' [[0, 1, 0], [1, 1, 0]] = None \<and>
   rows ids0 = [] \<and>
   corr_between_non_replicates ids0 1 2 ''Metadata_broad_sample'' [[0, 0]]
     = Some (Inl IndexError)"
proof -
  have le: "(2::int) \<le> 2" "(2::int) \<le> 3" "(0::int) \<le> 2" "(0::int) \<le> 0" "(0::int) \<le> 1"
    by simp_all
  note thm2 = corr_between_non_replicates_distinct_ids [OF ids2_hyps le(1) le(3)]
  note thm0 = corr_between_non_replicates_distinct_ids [OF ids2_hyps le(1) le(4)]
  note thm3 = corr_between_non_replicates_distinct_ids [OF ids2_hyps le(2) le(5)]
  note thme = corr_between_non_replicates_distinct_ids [OF ids0_hyps le(1) le(5)]
  have t: "list_all (valid_draw ids2 2) [[0, 0], [0, 1], [1, 1], [1, 0]]"
    by (simp add: valid_draw_def ids2_def)
  have t3: "list_all (valid_draw ids2 3) [[0, 1, 0], [1, 1, 0]]"
    by (simp add: valid_draw_def ids2_def)
  have v: "valid_draw ids2 2 [0, 0]" "valid_draw ids2 2 [0, 1]"
    by (simp_all add: valid_draw_def ids2_def)
  have f: "filter distinct [[0, 0], [0, 1], [1, 1], [1, 0::nat]] = [[0, 1], [1, 0]]"
    by simp
  have r2: "rows ids2 \<noteq> []" "int (length (rows ids2)) < 3" by (simp_all add: ids2_def)
  have r0: "rows ids0 = []" by (simp add: ids0_def)
  from thm2 v(2)
  have y: "\<exists>v. non_replicate_draw (reset_index ids2) 2 ''Metadata_broad_sample'' [0, 1]
                       = Inr (Some v)"
    by simp
  from thm2 v(1)
  have "\<not> (\<exists>v. non_replicate_draw (reset_index ids2) 2 ''Metadata_broad_sample'' [0, 0]
                       = Inr (Some v))"
    by simp
  moreover have "non_replicate_draw (reset_index ids2) 2 ''Metadata_broad_sample'' [0, 0]
                 = Inr None \<or>
                 (\<exists>v. non_replicate_draw (reset_index ids2) 2 ''Metadata_broad_sample'' [0, 0]
                       = Inr (Some v))"
    using non_replicate_draw_distinct_ids [OF ids2_hyps _ v(1)] by simp
  ultimately
  have z: "non_replicate_draw (reset_index ids2) 2 ''Metadata_broad_sample'' [0, 0] = Inr None"
    by blast
  from thm2 t f
  have "\<exists>out. corr_between_non_replicates ids2 2 2 ''Metadata_broad_sample''
             [[0, 0], [0, 1], [1, 1], [1, 0]] = Some (Inr out)"
    by simp
  moreover from thm2
  have "\<forall>out. corr_between_non_replicates ids2 2 2 ''Metadata_broad_sample''
             [[0, 0], [0, 1], [1, 1], [1, 0]] = Some (Inr out) \<longrightarrow> int (length out) = 2"
    by blast
  ultimately
  have o: "\<exists>out. corr_between_non_replicates ids2 2 2 ''Metadata_broad_sample''
             [[0, 0], [0, 1], [1, 1], [1, 0]] = Some (Inr out) \<and> length out = 2"
    by auto
  from thm0
  have n0: "corr_between_non_replicates ids2 0 2 ''Metadata_broad_sample'' [[0, 1]]
            = Some (Inr [])"
    by simp
  from thm3 r2 t3
  have n3: "corr_between_non_replicates ids2 1 3 ''Metadata_broad_sample''
              [[0, 1, 0], [1, 1, 0]] = None"
    by simp
  from thme r0
  have ne: "corr_between_non_replicates ids0 1 2 ''Metadata_broad_sample'' [[0, 0]]
            = Some (Inl IndexError)"
    by simp
  from ids2_hyps t y z o n0 t3 n3 r0 ne show ?thesis by simp
qed

lemma ids2_stat:
  "nanmedian (fill_diagonal (corrcoef [[Val 1, Val 2, Val 3], [Val 3, Val 2, Val 1]])) = Val (- 1)"
  by (simp add: nanmedian_def fill_diagonal_def corrcoef_def upt_rec corr_entry_def
        cov_entry_def dot_def centered_def mean_def clip_def median_def)

text \<open>
  C2, counterexample to the claim as stated. Both rows of \<open>ids2\<close> have their own
  identity value, and \<^verbatim>\<open>random.choices\<close> draws with replacement: the draw
  \<open>[0, 0]\<close> is rejected, so after one round the loop is still running, and the
  sample comes from the second draw.
\<close>

theorem corr_between_non_replicates_rejects_repeated_row:
  "distinct (column_cells ids2 0) \<and>
   valid_draw ids2 2 [0, 0] \<and>
   non_replicate_draw (reset_index ids2) 2 ''Metadata_broad_sample'' [0, 0] = Inr None \<and>
   corr_between_non_replicates ids2 1 2 ''Metadata_broad_sample'' [[0, 0]] = None \<and>
   corr_between_non_replicates ids2 1 2 ''Metadata_broad_sample'' [[0, 0], [0, 1]]
     = Some (Inr [Val (- 1)])"
proof -
  have v: "valid_draw ids2 2 [0, 0]" "valid_draw ids2 2 [0, 1]"
    by (simp_all add: valid_draw_def ids2_def)
  have z: "non_replicate_draw (reset_index ids2) 2 ''Metadata_broad_sample'' [0, 0] = Inr None"
    using non_replicate_draw_distinct_ids [OF ids2_hyps _ v(1)] by simp
  have fv: "feature_vectors ids2 (map ((!) (rows ids2)) [0, 1])
            = [[Val 1, Val 2, Val 3], [Val 3, Val 2, Val 1]]"
    by (simp add: feature_vectors_def ids2_positions) (simp add: ids2_def)
  have y: "non_replicate_draw (reset_index ids2) 2 ''Metadata_broad_sample'' [0, 1]
           = Inr (Some (Val (- 1)))"
  proof -
    have "(2::int) \<le> 2" by simp
    from non_replicate_draw_distinct_ids [OF ids2_hyps this v(2)]
    show ?thesis unfolding fv ids2_stat by simp
  qed
  show ?thesis
    using ids2_hyps(3) v(1) z y by (simp add: corr_between_non_replicates_def)
qed

section \<open>The cross-modality null distribution\<close>

lemma choices_same_index:
  "i < length population \<Longrightarrow> choices population [i, i] = Inr [population ! i, population ! i]"
  by (simp add: choices_def)

lemmas table_defs = get_column_def col_pos_def intersect1d_def sort_cells_def isna_def
  concat_inner_def select_columns_def query_eq_def keep_rows_def cell_eq_def loc_eq_def
  get_featuredata_def get_featurecols_def startswith_def float_rows_def unique_def choices_def

lemmas stat_defs = nanmedian_def corrcoef_def corr_entry_def cov_entry_def dot_def centered_def
  mean_def clip_def median_def

text \<open>
  C1. The two common-key values of a round are drawn by one call of
  \<^verbatim>\<open>random.choices\<close> with \<open>k = 2\<close>, with replacement, and nothing compares
  them: any index may come twice (\<open>choices_same_index\<close>). With the common keys
  \<^verbatim>\<open>G1\<close> and \<^verbatim>\<open>G2\<close> and the draw \<open>[0, 0]\<close>, both selections are driven
  by \<^verbatim>\<open>G1\<close> and the null distribution receives the correlation of the compound
  and the CRISPR profile of that same key.
\<close>

theorem null_between_modalities_same_key:
  "get_column compounds2 ''Metadata_genes'' = Inr [Str ''G1'', Str ''G2''] \<and>
   get_column crispr2 ''Metadata_genes'' = Inr [Str ''G1'', Str ''G2''] \<and>
   intersect1d [Str ''G1'', Str ''G2''] [Str ''G1'', Str ''G2''] = [Str ''G1'', Str ''G2''] \<and>
   choices [Str ''G1'', Str ''G2''] [0, 0] = Inr [Str ''G1'', Str ''G1''] \<and>
   null_correlation_between_modalities compounds2 crispr2 ''Compounds'' ''CRISPR''
     ''Metadata_genes'' ''Metadata_broad_sample'' 1 [[0, 0]] = Some (Inr [Val 1])"
  by (simp add: null_correlation_between_modalities_def null_modalities_round_def
      cross_statistic_def compounds2_def crispr2_def table_defs stat_defs Let_def)

section \<open>The sphering transformer: shapes and errors\<close>

text \<open>
  C8, as amended. Before \<^verbatim>\<open>fit\<close> (whenever the attribute \<^verbatim>\<open>mean_\<close> is not
  set) \<^verbatim>\<open>transform\<close> raises the not-fitted error. On a transformer fitted on
  \<open>d\<close> features, a matrix whose number of columns is neither \<open>d\<close> nor 1 raises
  \<^verbatim>\<open>ValueError\<close> (from the subtraction or from the product); a matrix of one
  column is stretched against the mean vector and a value of \<open>d\<close> columns is
  returned.
\<close>

theorem transform_errors:
  "(zca_mean self = None \<longrightarrow> transform self X = Inl NotFittedError) \<and>
   transform ZCA_corr X = Inl NotFittedError \<and>
   (fitted d self \<and> ncols X \<noteq> d \<and> ncols X \<noteq> 1 \<longrightarrow> transform self X = Inl ValueError) \<and>
   (fitted d self \<and> ncols X = 1 \<longrightarrow>
      (\<exists>Y. transform self X = Inr Y \<and> nrows Y = nrows X \<and> ncols Y = d))"
proof -
  have a: "zca_mean self = None \<longrightarrow> transform self X = Inl NotFittedError"
    by (simp add: transform_def)
  have b: "transform ZCA_corr X = Inl NotFittedError"
    by (simp add: transform_def ZCA_corr_def)
  have c: "transform self X = Inl ValueError"
    if "fitted d self" "ncols X \<noteq> d" "ncols X \<noteq> 1"
    using that
    by (auto simp: fitted_def transform_def subtract_broadcast_def np_dot_def transposed_def
        split: option.splits)
  have e: "\<exists>Y. transform self X = Inr Y \<and> nrows Y = nrows X \<and> ncols Y = d"
    if "fitted d self" "ncols X = 1"
    using that
    by (auto simp: fitted_def transform_def subtract_broadcast_def np_dot_def transposed_def
        split: option.splits)
  from a b c e show ?thesis by blast
qed

text \<open>
  C8, witness: a transformer fitted on two features, a matrix of three columns and a
  matrix of one column.
\<close>

theorem transform_errors_witness:
  "transform ZCA_corr column1 = Inl NotFittedError \<and>
   fitted 2 fitted22 \<and> ncols columns3 \<noteq> 2 \<and> ncols columns3 \<noteq> 1 \<and>
   transform fitted22 columns3 = Inl ValueError \<and>
   ncols column1 = 1 \<and>
   (\<exists>Y. transform fitted22 column1 = Inr Y \<and> nrows Y = nrows column1 \<and> ncols Y = 2)"
proof -
  have f: "fitted 2 fitted22" by (simp add: fitted_def fitted22_def eye2_def)
  have c3: "ncols columns3 \<noteq> 2" "ncols columns3 \<noteq> 1" by (simp_all add: columns3_def)
  have c1: "ncols column1 = 1" by (simp add: column1_def)
  from transform_errors [of fitted22 columns3 2] f c3
  have "transform fitted22 columns3 = Inl ValueError" by blast
  moreover from transform_errors [of fitted22 column1 2] f c1
  have "\<exists>Y. transform fitted22 column1 = Inr Y \<and> nrows Y = nrows column1 \<and> ncols Y = 2"
    by blast
  moreover from transform_errors [of fitted22 column1 2]
  have "transform ZCA_corr column1 = Inl NotFittedError" by blast
  ultimately show ?thesis using f c3 c1 by simp
qed

text \<open>
  C8, counterexample to the claim as stated. Fitting on the 2 by 2 matrix
  \<open>reference22\<close> (whitening computation: the identity) gives a transformer of two
  features; \<^verbatim>\<open>transform\<close> of the matrix \<open>column1\<close>, whose single column
  differs from the two fitted features, returns a 1 by 2 matrix.
\<close>

theorem transform_broadcasts_single_column:
  "fit (\<lambda>X. Inr eye2) ZCA_corr reference22 = Inr fitted22 \<and>
   fitted 2 fitted22 \<and>
   ncols column1 = 1 \<and>
   transform fitted22 column1 = Inr \<lparr>nrows = 1, ncols = 2, entries = [[Val 3, Val 2]]\<rparr>"
  by (simp add: fit_def check_array_def column_means_def fmean_def mean_def subtract_broadcast_def
      ZCA_corr_def reference22_def fitted22_def fitted_def eye2_def column1_def transform_def
      np_dot_def transposed_def fsum_def upt_rec Let_def)

section \<open>Sphering a plate: the frame\<close>

















lemma plate3_value:
  "sphere_plate_zca_corr identity_whiten plate3 =
     Inr \<lparr>columns = [''Cells_a'', ''Cells_b'', ''Metadata_control_type'', ''Metadata_Well''],
          index = [0, 1, 2],
          rows = [[Num (Val (- 1)), Num (Val (- 1)), Str ''negcon'', Str ''A01''],
                  [Num (Val 1), Num (Val 1), Str ''negcon'', Str ''A02''],
                  [Num (Val 3), Num (Val 3), Num NaN, Str ''A03'']]\<rparr>"
  by (simp add: sphere_plate_zca_corr_def plate3_def identity_whiten_def col_pos_def keep_rows_def
      cell_eq_def isna_def get_featuredata_def get_metadata_def get_featurecols_def get_metacols_def
      select_columns_def startswith_def to_float_array_def float_rows_def fit_def check_array_def
      column_means_def fmean_def mean_def subtract_broadcast_def ZCA_corr_def transform_def
      np_dot_def transposed_def fsum_def DataFrame_def concat_columns_def shape_def upt_rec Let_def)



text \<open>
  On the table \<open>plate_bare\<close>, whose column \<^verbatim>\<open>Metadata\<close> is in neither list of
  the accessor, the combined table lacks that column and the function's own assertion
  on the shape fails.
\<close>

lemma plate_bare_assertion:
  "sphere_plate_zca_corr identity_whiten plate_bare = Inl AssertionError"
  by (simp add: sphere_plate_zca_corr_def plate_bare_def identity_whiten_def col_pos_def keep_rows_def
      cell_eq_def isna_def get_featuredata_def get_metadata_def get_featurecols_def get_metacols_def
      select_columns_def startswith_def to_float_array_def float_rows_def fit_def check_array_def
      column_means_def fmean_def mean_def subtract_broadcast_def ZCA_corr_def transform_def
      np_dot_def transposed_def fsum_def DataFrame_def concat_columns_def shape_def upt_rec Let_def)

end
